theory Spec2Isabelle
  imports Main "HOL-Library.Word"
begin

section \<open>The per-CPU state of rtsl (kernel/trace/trace_preemptirq.c)\<close>

text \<open>
  The latency parser keeps one \<open>struct rtsl_variables\<close> per CPU. Time stamps and
  durations are \<open>u64\<close>; \<open>pid_t\<close> and the \<open>int\<close> fields are 32 bits wide; the
  \<open>local_t\<close> interrupt counter is a 64-bit long. Arithmetic on them wraps around.
\<close>

type_synonym u64 = "64 word"
type_synonym c_int = "32 word"
type_synonym pid_t = "32 word"

record poid =
  pd :: bool
  id :: bool
  delta_start :: u64
  max :: u64

record paie =
  delta_start :: u64
  max :: u64

record psd =
  delta_start :: u64
  max :: u64

record dst =
  pid :: pid_t
  delta_start :: u64
  max :: u64

record irq =
  arrival_time :: u64
  delta_start :: u64
  was_psd :: c_int
  vector :: c_int

record nmi =
  delta_start :: u64

record rtsl_variables =
  int_counter :: "64 word"
  poid :: poid
  paie :: paie
  psd :: psd
  dst :: dst
  irq :: irq
  nmi :: nmi
  running :: bool

text \<open>The macros that test whether a window is being measured.\<close>

definition are_poid :: "poid \<Rightarrow> bool" where
  "are_poid p = (poid.delta_start p \<noteq> 0)"

definition is_pd :: "poid \<Rightarrow> bool" where
  "is_pd p = poid.pd p"

definition is_id :: "poid \<Rightarrow> bool" where
  "is_id p = poid.id p"

definition is_paie :: "paie \<Rightarrow> bool" where
  "is_paie p = (paie.delta_start p \<noteq> 0)"

definition is_psd :: "psd \<Rightarrow> bool" where
  "is_psd p = (psd.delta_start p \<noteq> 0)"

definition is_irq :: "irq \<Rightarrow> bool" where
  "is_irq p = (irq.delta_start p \<noteq> 0)"

definition is_dst :: "dst \<Rightarrow> bool" where
  "is_dst p = (dst.delta_start p \<noteq> 0)"

text \<open>\<open>rtsl_var_reset\<close>: the \<open>memset\<close> that zeroes the whole structure.\<close>

definition rtsl_var_zero :: rtsl_variables where
  "rtsl_var_zero =
     \<lparr> int_counter = 0,
       poid = \<lparr> poid.pd = False, poid.id = False, poid.delta_start = 0, poid.max = 0 \<rparr>,
       paie = \<lparr> paie.delta_start = 0, paie.max = 0 \<rparr>,
       psd = \<lparr> psd.delta_start = 0, psd.max = 0 \<rparr>,
       dst = \<lparr> dst.pid = 0, dst.delta_start = 0, dst.max = 0 \<rparr>,
       irq = \<lparr> irq.arrival_time = 0, irq.delta_start = 0, irq.was_psd = 0, irq.vector = 0 \<rparr>,
       nmi = \<lparr> nmi.delta_start = 0 \<rparr>,
       running = False \<rparr>"

definition rtsl_var_reset :: "rtsl_variables \<Rightarrow> rtsl_variables" where
  "rtsl_var_reset rtsl_var = rtsl_var_zero"

definition rtsl_start :: "rtsl_variables \<Rightarrow> rtsl_variables" where
  "rtsl_start rtsl_var = rtsl_var\<lparr>running := True\<rparr>"

definition rtsl_stop :: "rtsl_variables \<Rightarrow> rtsl_variables" where
  "rtsl_stop rtsl_var = rtsl_var\<lparr>running := False\<rparr>"

definition rtsl_running :: "rtsl_variables \<Rightarrow> bool" where
  "rtsl_running rtsl_var = running rtsl_var"

section \<open>What a handler asks of the host, and what it emits\<close>

text \<open>
  A handler runs on the CPU that raised the event. Its view of the host is: the values
  that successive calls of \<open>get_clock()\<close> return during this invocation (\<open>clock e k\<close> is
  the value of call number \<open>k\<close>, counted from 0), \<open>current->pid\<close>,
  \<open>tif_need_resched_now()\<close>, \<open>irqs_disabled()\<close> and the value that
  \<open>atomic_read(&global_rtsl_enable)\<close> returns.
\<close>

record env =
  clock :: "nat \<Rightarrow> u64"
  current_pid :: pid_t
  tif_need_resched_now :: bool
  irqs_disabled :: bool
  atomic_read_enable :: c_int

definition rtsl_enabled :: "c_int \<Rightarrow> bool" where
  "rtsl_enabled global_enable = (global_enable \<noteq> 0)"

text \<open>The trace records, one constructor per \<open>trace_*\<close> call of the source.\<close>

datatype trace =
    trace_poid u64
  | trace_max_poid u64
  | trace_paie u64
  | trace_max_paie u64
  | trace_psd u64
  | trace_max_psd u64
  | trace_dst u64
  | trace_max_dst u64
  | trace_irq_execution c_int u64 u64
  | trace_nmi_execution u64 u64

section \<open>The interrupt-safe duration primitives\<close>

text \<open>
  The source passes \<open>u64 *delta_start\<close>, the address of one window's start. The address
  is modelled by the window it belongs to (\<open>ptr\<close> below).
\<close>

datatype delta_start_ptr = Poid_start | Paie_start | Psd_start | Dst_start | Irq_start

fun read_start :: "delta_start_ptr \<Rightarrow> rtsl_variables \<Rightarrow> u64" where
  "read_start Poid_start v = poid.delta_start (poid v)"
| "read_start Paie_start v = paie.delta_start (paie v)"
| "read_start Psd_start v = psd.delta_start (psd v)"
| "read_start Dst_start v = dst.delta_start (dst v)"
| "read_start Irq_start v = irq.delta_start (irq v)"

fun write_start :: "delta_start_ptr \<Rightarrow> u64 \<Rightarrow> rtsl_variables \<Rightarrow> rtsl_variables" where
  "write_start Poid_start x v = v\<lparr>poid := (poid v)\<lparr>poid.delta_start := x\<rparr>\<rparr>"
| "write_start Paie_start x v = v\<lparr>paie := (paie v)\<lparr>paie.delta_start := x\<rparr>\<rparr>"
| "write_start Psd_start x v = v\<lparr>psd := (psd v)\<lparr>psd.delta_start := x\<rparr>\<rparr>"
| "write_start Dst_start x v = v\<lparr>dst := (dst v)\<lparr>dst.delta_start := x\<rparr>\<rparr>"
| "write_start Irq_start x v = v\<lparr>irq := (irq v)\<lparr>irq.delta_start := x\<rparr>\<rparr>"

text \<open>
  Handlers run to completion here: no other handler of the same CPU runs between the two
  reads of \<open>int_counter\<close> in the \<open>do ... while\<close> loops below, so the loop test compares
  the counter with itself and the body runs once, with the clock value \<open>now\<close>.

  \<open>get_int_safe_duration\<close> returns \<open>now - *delta_start\<close> and then stores 0.
\<close>

definition get_int_safe_duration ::
  "u64 \<Rightarrow> delta_start_ptr \<Rightarrow> rtsl_variables \<Rightarrow> u64 \<times> rtsl_variables" where
  "get_int_safe_duration now ptr rtsl_var =
     (let duration = now - read_start ptr rtsl_var
      in (duration, write_start ptr 0 rtsl_var))"

definition set_int_safe_delta_start ::
  "u64 \<Rightarrow> delta_start_ptr \<Rightarrow> rtsl_variables \<Rightarrow> rtsl_variables" where
  "set_int_safe_delta_start now ptr rtsl_var = write_start ptr now rtsl_var"

section \<open>The event handlers\<close>

text \<open>
  Every handler returns the new per-CPU state and the records it emitted, in order.

  \<open>rtsl_initialized\<close>: a CPU that is not running starts only when rtsl is enabled and
  interrupts are on.
\<close>

definition rtsl_initialized :: "env \<Rightarrow> rtsl_variables \<Rightarrow> c_int \<times> rtsl_variables" where
  "rtsl_initialized e rtsl_var =
     (if \<not> rtsl_running rtsl_var then
        if \<not> rtsl_enabled (atomic_read_enable e) then (0, rtsl_var)
        else if irqs_disabled e then (0, rtsl_var)
        else (1, rtsl_start rtsl_var)
      else (1, rtsl_var))"

text \<open>
  \<open>poid_duration\<close>. \<open>duration\<close> is an \<open>s64\<close> and \<open>poid->max\<close> a \<open>u64\<close>, so the
  comparison \<open>duration < poid->max\<close> is unsigned.
\<close>

definition poid_duration :: "u64 \<Rightarrow> pid_t \<Rightarrow> rtsl_variables \<Rightarrow> rtsl_variables \<times> trace list" where
  "poid_duration now cur rtsl_var =
     (if \<not> are_poid (poid rtsl_var) then (rtsl_var, [])
      else
        let (duration, v1) = get_int_safe_duration now Poid_start rtsl_var
        in if cur = 0 then (v1, [])
           else if duration < poid.max (poid v1) then (v1, [trace_poid duration])
           else (v1\<lparr>poid := (poid v1)\<lparr>poid.max := duration\<rparr>\<rparr>,
                 [trace_poid duration, trace_max_poid duration]))"

definition irq_occurence :: "u64 \<Rightarrow> rtsl_variables \<Rightarrow> rtsl_variables \<times> trace list" where
  "irq_occurence now rtsl_var =
     (let (duration, v1) = get_int_safe_duration now Irq_start rtsl_var;
          out = [trace_irq_execution (irq.vector (irq v1)) (irq.arrival_time (irq v1)) duration];
          v2 = (if are_poid (poid v1)
                then v1\<lparr>poid := (poid v1)\<lparr>poid.delta_start := poid.delta_start (poid v1) + duration\<rparr>\<rparr>
                else v1);
          v3 = (if is_dst (dst v2)
                then v2\<lparr>dst := (dst v2)\<lparr>dst.delta_start := dst.delta_start (dst v2) + duration\<rparr>\<rparr>
                else v2);
          v4 = (if is_paie (paie v3)
                then v3\<lparr>paie := (paie v3)\<lparr>paie.delta_start := paie.delta_start (paie v3) + duration\<rparr>\<rparr>
                else v3);
          v5 = (if irq.was_psd (irq v4) \<noteq> 0
                then v4\<lparr>psd := (psd v4)\<lparr>psd.delta_start := psd.delta_start (psd v4) + duration\<rparr>\<rparr>
                else v4)
      in (v5\<lparr>irq := (irq v5)\<lparr>irq.vector := 0, irq.was_psd := 0\<rparr>\<rparr>, out))"

definition handle_irq_disable_normal :: "env \<Rightarrow> rtsl_variables \<Rightarrow> rtsl_variables" where
  "handle_irq_disable_normal e rtsl_var =
     (let renew = (is_psd (psd rtsl_var) \<and> dst.pid (dst rtsl_var) = current_pid e);
          v1 = (if renew then set_int_safe_delta_start (clock e 0) Dst_start rtsl_var
                else rtsl_var);
          k = (if renew then 1 else 0);
          v2 = v1\<lparr>poid := (poid v1)\<lparr>poid.id := True\<rparr>\<rparr>
      in if are_poid (poid v2) then v2
         else set_int_safe_delta_start (clock e k) Poid_start v2)"

definition handle_irq_disable_irq :: "env \<Rightarrow> rtsl_variables \<Rightarrow> rtsl_variables" where
  "handle_irq_disable_irq e rtsl_var =
     (let v1 = (if is_psd (psd rtsl_var)
                then rtsl_var\<lparr>irq := (irq rtsl_var)\<lparr>irq.was_psd := 1\<rparr>\<rparr>
                else rtsl_var);
          v2 = v1\<lparr>irq := (irq v1)\<lparr>irq.arrival_time := clock e 0\<rparr>\<rparr>
      in set_int_safe_delta_start (clock e 1) Irq_start v2)"

definition handle_irq_disable ::
  "c_int \<Rightarrow> env \<Rightarrow> rtsl_variables \<Rightarrow> rtsl_variables \<times> trace list" where
  "handle_irq_disable irq_entry e rtsl_var =
     (if \<not> rtsl_running rtsl_var then (rtsl_var, [])
      else if irq_entry \<noteq> 0 then (handle_irq_disable_irq e rtsl_var, [])
      else (handle_irq_disable_normal e rtsl_var, []))"

definition handle_irq_enable_irq :: "env \<Rightarrow> rtsl_variables \<Rightarrow> rtsl_variables \<times> trace list" where
  "handle_irq_enable_irq e rtsl_var =
     (if \<not> rtsl_running rtsl_var then (rtsl_var, [])
      else irq_occurence (clock e 0) rtsl_var)"

definition handle_irq_enable_normal :: "env \<Rightarrow> rtsl_variables \<Rightarrow> rtsl_variables \<times> trace list" where
  "handle_irq_enable_normal e rtsl_var =
     (if \<not> rtsl_running rtsl_var then (rtsl_var, [])
      else
        let v1 = rtsl_var\<lparr>poid := (poid rtsl_var)\<lparr>poid.id := False\<rparr>\<rparr>
        in if is_pd (poid v1) \<or> is_psd (psd v1) then (v1, [])
           else
             let (v2, out) = poid_duration (clock e 0) (current_pid e) v1;
                 k = (if are_poid (poid v1) then 1 else 0)
             in (if tif_need_resched_now e
                 then set_int_safe_delta_start (clock e k) Paie_start v2
                 else v2, out))"

definition handle_irq_enable ::
  "c_int \<Rightarrow> env \<Rightarrow> rtsl_variables \<Rightarrow> rtsl_variables \<times> trace list" where
  "handle_irq_enable irq_exit e rtsl_var =
     (if \<not> rtsl_running rtsl_var then (rtsl_var, [])
      else if irq_exit \<noteq> 0 then handle_irq_enable_irq e rtsl_var
      else handle_irq_enable_normal e rtsl_var)"

definition handle_preempt_disable_nosched ::
  "env \<Rightarrow> rtsl_variables \<Rightarrow> rtsl_variables \<times> trace list" where
  "handle_preempt_disable_nosched e rtsl_var =
     (if \<not> rtsl_running rtsl_var then (rtsl_var, [])
      else if is_irq (irq rtsl_var) then (rtsl_var, [])
      else
        let v1 = rtsl_var\<lparr>poid := (poid rtsl_var)\<lparr>poid.pd := True\<rparr>\<rparr>
        in if is_id (poid v1) then (v1, [])
           else (set_int_safe_delta_start (clock e 0) Poid_start v1, []))"

definition handle_preempt_enable_nosched ::
  "env \<Rightarrow> rtsl_variables \<Rightarrow> rtsl_variables \<times> trace list" where
  "handle_preempt_enable_nosched e rtsl_var =
     (if \<not> rtsl_running rtsl_var then (rtsl_var, [])
      else if is_irq (irq rtsl_var) then (rtsl_var, [])
      else
        let v1 = rtsl_var\<lparr>poid := (poid rtsl_var)\<lparr>poid.pd := False\<rparr>\<rparr>
        in if is_id (poid v1) then (v1, [])
           else
             let (v2, out) = poid_duration (clock e 0) (current_pid e) v1;
                 k = (if are_poid (poid v1) then 1 else 0)
             in (if tif_need_resched_now e
                 then set_int_safe_delta_start (clock e k) Paie_start v2
                 else v2, out))"

text \<open>\<open>paie_duration\<close>; \<open>paie->max > duration\<close> is an unsigned comparison too.\<close>

definition paie_duration :: "u64 \<Rightarrow> pid_t \<Rightarrow> rtsl_variables \<Rightarrow> rtsl_variables \<times> trace list" where
  "paie_duration now cur rtsl_var =
     (if \<not> is_paie (paie rtsl_var) then (rtsl_var, [])
      else
        let (duration, v1) = get_int_safe_duration now Paie_start rtsl_var
        in if cur = 0 then (v1, [])
           else if paie.max (paie v1) > duration then (v1, [trace_paie duration])
           else (v1\<lparr>paie := (paie v1)\<lparr>paie.max := duration\<rparr>\<rparr>,
                 [trace_paie duration, trace_max_paie duration]))"

definition handle_preempt_disable_sched ::
  "env \<Rightarrow> rtsl_variables \<Rightarrow> rtsl_variables \<times> trace list" where
  "handle_preempt_disable_sched e rtsl_var =
     (let (ok, v0) = rtsl_initialized e rtsl_var
      in if ok = 0 then (v0, [])
         else
           let closing = (tif_need_resched_now e \<and> \<not> is_irq (irq v0) \<and> \<not> is_id (poid v0));
               (v1, out) = (if closing then paie_duration (clock e 0) (current_pid e) v0
                            else (v0, []));
               k = (if closing \<and> is_paie (paie v0) then 1 else 0);
               v2 = v1\<lparr>paie := (paie v1)\<lparr>paie.delta_start := 0\<rparr>\<rparr>;
               v3 = v2\<lparr>dst := (dst v2)\<lparr>dst.pid := current_pid e\<rparr>\<rparr>
           in (set_int_safe_delta_start (clock e k) Psd_start v3, out))"

definition handle_preempt_enable_sched ::
  "env \<Rightarrow> rtsl_variables \<Rightarrow> rtsl_variables \<times> trace list" where
  "handle_preempt_enable_sched e rtsl_var =
     (if \<not> rtsl_running rtsl_var then (rtsl_var, [])
      else
        let (v1, out1, k) =
              (if is_dst (dst rtsl_var) then
                 let (dst_duration, u1) = get_int_safe_duration (clock e 0) Dst_start rtsl_var
                 in if dst_duration > dst.max (dst u1)
                    then (u1\<lparr>dst := (dst u1)\<lparr>dst.max := dst_duration\<rparr>\<rparr>,
                          [trace_dst dst_duration, trace_max_dst dst_duration], 1)
                    else (u1, [trace_dst dst_duration], 1)
               else (rtsl_var, [], 0));
            (psd_duration, v2) = get_int_safe_duration (clock e k) Psd_start v1;
            (v3, out2) =
              (if psd_duration > psd.max (psd v2)
               then (v2\<lparr>psd := (psd v2)\<lparr>psd.max := psd_duration\<rparr>\<rparr>,
                     [trace_psd psd_duration, trace_max_psd psd_duration])
               else (v2, [trace_psd psd_duration]))
        in (if tif_need_resched_now e
            then set_int_safe_delta_start (clock e (Suc k)) Paie_start v3
            else v3, out1 @ out2))"

definition handle_preempt_disable ::
  "c_int \<Rightarrow> env \<Rightarrow> rtsl_variables \<Rightarrow> rtsl_variables \<times> trace list" where
  "handle_preempt_disable to_schedule e rtsl_var =
     (if to_schedule \<noteq> 0 then handle_preempt_disable_sched e rtsl_var
      else handle_preempt_disable_nosched e rtsl_var)"

definition handle_preempt_enable ::
  "c_int \<Rightarrow> env \<Rightarrow> rtsl_variables \<Rightarrow> rtsl_variables \<times> trace list" where
  "handle_preempt_enable to_schedule e rtsl_var =
     (if to_schedule \<noteq> 0 then handle_preempt_enable_sched e rtsl_var
      else handle_preempt_enable_nosched e rtsl_var)"

definition handle_nmi_entry :: "env \<Rightarrow> rtsl_variables \<Rightarrow> rtsl_variables \<times> trace list" where
  "handle_nmi_entry e rtsl_var =
     (if \<not> rtsl_running rtsl_var then (rtsl_var, [])
      else (rtsl_var\<lparr>nmi := (nmi rtsl_var)\<lparr>nmi.delta_start := clock e 0\<rparr>\<rparr>, []))"

definition handle_nmi_exit :: "env \<Rightarrow> rtsl_variables \<Rightarrow> rtsl_variables \<times> trace list" where
  "handle_nmi_exit e rtsl_var =
     (if \<not> rtsl_running rtsl_var then (rtsl_var, [])
      else
        let duration = clock e 0 - nmi.delta_start (nmi rtsl_var);
            out = [trace_nmi_execution (nmi.delta_start (nmi rtsl_var)) duration];
            v0 = rtsl_var\<lparr>int_counter := int_counter rtsl_var + 1\<rparr>;
            v1 = (if is_irq (irq v0)
                  then v0\<lparr>irq := (irq v0)\<lparr>irq.delta_start := irq.delta_start (irq v0) + duration\<rparr>\<rparr>
                  else v0);
            v2 = (if are_poid (poid v1)
                  then v1\<lparr>poid := (poid v1)\<lparr>poid.delta_start := poid.delta_start (poid v1) + duration\<rparr>\<rparr>
                  else v1);
            v3 = (if is_psd (psd v2)
                  then v2\<lparr>psd := (psd v2)\<lparr>psd.delta_start := psd.delta_start (psd v2) + duration\<rparr>\<rparr>
                  else v2);
            v4 = (if is_dst (dst v3)
                  then v3\<lparr>dst := (dst v3)\<lparr>dst.delta_start := dst.delta_start (dst v3) + duration\<rparr>\<rparr>
                  else v3);
            v5 = (if is_paie (paie v4)
                  then v4\<lparr>paie := (paie v4)\<lparr>paie.delta_start := paie.delta_start (paie v4) + duration\<rparr>\<rparr>
                  else v4)
        in (v5, out))"

definition handle_irq_vector_entry ::
  "c_int \<Rightarrow> env \<Rightarrow> rtsl_variables \<Rightarrow> rtsl_variables \<times> trace list" where
  "handle_irq_vector_entry vec e rtsl_var =
     (if \<not> rtsl_running rtsl_var then (rtsl_var, [])
      else (rtsl_var\<lparr>irq := (irq rtsl_var)\<lparr>irq.vector := vec\<rparr>,
                     int_counter := int_counter rtsl_var + 1\<rparr>, []))"

definition handle_irq_entry ::
  "c_int \<Rightarrow> env \<Rightarrow> rtsl_variables \<Rightarrow> rtsl_variables \<times> trace list" where
  "handle_irq_entry irq_nr e rtsl_var =
     (if \<not> rtsl_running rtsl_var then (rtsl_var, [])
      else (rtsl_var\<lparr>irq := (irq rtsl_var)\<lparr>irq.vector := irq_nr\<rparr>,
                     int_counter := int_counter rtsl_var + 1\<rparr>, []))"

section \<open>Events on one CPU\<close>

text \<open>
  The hooked tracepoints, with the argument each one carries; \<open>deliver\<close> calls the probe that
  the table \<open>tps\<close> binds to the tracepoint.
\<close>

datatype event =
    Nmi_entry
  | Nmi_exit
  | Irq_disable c_int
  | Irq_enable c_int
  | Irq_vector_entry c_int
  | Irq_handler_entry c_int
  | Preempt_disable c_int
  | Preempt_enable c_int

fun deliver :: "event \<Rightarrow> env \<Rightarrow> rtsl_variables \<Rightarrow> rtsl_variables \<times> trace list" where
  "deliver Nmi_entry = handle_nmi_entry"
| "deliver Nmi_exit = handle_nmi_exit"
| "deliver (Irq_disable irq_entry) = handle_irq_disable irq_entry"
| "deliver (Irq_enable irq_exit) = handle_irq_enable irq_exit"
| "deliver (Irq_vector_entry vec) = handle_irq_vector_entry vec"
| "deliver (Irq_handler_entry irq_nr) = handle_irq_entry irq_nr"
| "deliver (Preempt_disable to_schedule) = handle_preempt_disable to_schedule"
| "deliver (Preempt_enable to_schedule) = handle_preempt_enable to_schedule"

text \<open>A CPU handles its events one after the other; the emitted records accumulate.\<close>

fun run :: "(event \<times> env) list \<Rightarrow> rtsl_variables \<Rightarrow> rtsl_variables \<times> trace list" where
  "run [] v = (v, [])"
| "run ((ev, e) # rest) v =
     (let (v1, out1) = deliver ev e v;
          (v2, out2) = run rest v1
      in (v2, out1 @ out2))"

section \<open>The host: tracepoint registry and CPUs\<close>

text \<open>
  A \<open>struct tracepoint\<close> of the host is known to rtsl by its name only; a pointer to one
  is \<open>Some\<close> of it, and \<open>NULL\<close> is \<open>None\<close>. The probes are the handlers above.
\<close>

record tracepoint =
  name :: string

datatype probe_fn =
    P_handle_nmi_entry
  | P_handle_nmi_exit
  | P_handle_irq_disable
  | P_handle_irq_enable
  | P_handle_irq_vector_entry
  | P_handle_irq_entry
  | P_handle_preempt_disable
  | P_handle_preempt_enable

record tp_and_name =
  tp :: "tracepoint option"
  probe :: "probe_fn option"
  name :: string
  registered :: c_int

text \<open>
  Modelled from the spec: the host's tracepoint registry and its iteration over online
  CPUs (section 6: tracepoint registry with probe (un)register-by-name, online-CPU
  iteration) are not under src/. The host holds the tracepoints that
  \<open>for_each_kernel_tracepoint\<close> visits, the set of probes attached to tracepoints, the
  error code it answers to a registration request (0 accepts it), and the online CPUs.
\<close>

record host =
  kernel_tracepoints :: "tracepoint list"
  attached :: "(tracepoint \<times> probe_fn option) set"
  register_errno :: "tracepoint \<times> probe_fn option \<Rightarrow> c_int"
  cpu_online_mask :: "nat list"

text \<open>
  The side effects of the lifecycle code, in program order: stores to the atomic flag,
  per-CPU stores and calls into the registry.
\<close>

datatype effect =
    Eff_atomic_set c_int
  | Eff_var_reset nat
  | Eff_running_clear nat
  | Eff_probe_register tracepoint "probe_fn option" c_int
  | Eff_probe_unregister "tracepoint option" "probe_fn option"

record rtsl_system =
  global_rtsl_enable :: c_int
  per_cpu_rtsl_var :: "nat \<Rightarrow> rtsl_variables"
  tps :: "tp_and_name list"
  kernel :: host
  history :: "effect list"

definition atomic_set_global_rtsl_enable :: "c_int \<Rightarrow> rtsl_system \<Rightarrow> rtsl_system" where
  "atomic_set_global_rtsl_enable x s =
     s\<lparr>global_rtsl_enable := x, history := history s @ [Eff_atomic_set x]\<rparr>"

text \<open>
  Modelled from the spec: \<open>tracepoint_probe_register\<close> and
  \<open>tracepoint_probe_unregister\<close> of the host registry (not under src/). A request that
  the host accepts attaches the probe; unregistering detaches it. The source can hand
  \<open>NULL\<close> to unregister (a \<open>registered\<close> flag left set over a failed lookup); the
  call is recorded and the registry is left as it is.
\<close>

definition tracepoint_probe_register ::
  "tracepoint \<Rightarrow> probe_fn option \<Rightarrow> rtsl_system \<Rightarrow> c_int \<times> rtsl_system" where
  "tracepoint_probe_register ktp p s =
     (let retval = register_errno (kernel s) (ktp, p);
          k1 = (if retval = 0
                then (kernel s)\<lparr>attached := insert (ktp, p) (attached (kernel s))\<rparr>
                else kernel s)
      in (retval, s\<lparr>kernel := k1, history := history s @ [Eff_probe_register ktp p retval]\<rparr>))"

definition tracepoint_probe_unregister ::
  "tracepoint option \<Rightarrow> probe_fn option \<Rightarrow> rtsl_system \<Rightarrow> rtsl_system" where
  "tracepoint_probe_unregister t p s =
     (let k1 = (case t of
                  None \<Rightarrow> kernel s
                | Some ktp \<Rightarrow> (kernel s)\<lparr>attached := attached (kernel s) - {(ktp, p)}\<rparr>)
      in s\<lparr>kernel := k1, history := history s @ [Eff_probe_unregister t p]\<rparr>)"

section \<open>Starting and stopping all CPUs\<close>

definition rtsl_var_reset_cpu :: "rtsl_system \<Rightarrow> nat \<Rightarrow> rtsl_system" where
  "rtsl_var_reset_cpu s cpu =
     s\<lparr>per_cpu_rtsl_var := (per_cpu_rtsl_var s)(cpu := rtsl_var_reset (per_cpu_rtsl_var s cpu)),
       history := history s @ [Eff_var_reset cpu]\<rparr>"

definition rtsl_var_init_all :: "rtsl_system \<Rightarrow> rtsl_system" where
  "rtsl_var_init_all s = foldl rtsl_var_reset_cpu s (cpu_online_mask (kernel s))"

definition rtsl_var_destroy_all :: "rtsl_system \<Rightarrow> rtsl_system" where
  "rtsl_var_destroy_all s = foldl rtsl_var_reset_cpu s (cpu_online_mask (kernel s))"

definition rtsl_stop_cpu :: "rtsl_system \<Rightarrow> nat \<Rightarrow> rtsl_system" where
  "rtsl_stop_cpu s cpu =
     s\<lparr>per_cpu_rtsl_var := (per_cpu_rtsl_var s)(cpu := (per_cpu_rtsl_var s cpu)\<lparr>running := False\<rparr>),
       history := history s @ [Eff_running_clear cpu]\<rparr>"

text \<open>\<open>rtsl_stop_all\<close> is defined by the source; nothing calls it.\<close>

definition rtsl_stop_all :: "rtsl_system \<Rightarrow> rtsl_system" where
  "rtsl_stop_all s = foldl rtsl_stop_cpu s (cpu_online_mask (kernel s))"

section \<open>Hooking the tracepoints\<close>

definition fill_tp_by_name :: "tracepoint \<Rightarrow> tp_and_name \<Rightarrow> tp_and_name" where
  "fill_tp_by_name ktp priv =
     (if tracepoint.name ktp = tp_and_name.name priv then priv\<lparr>tp := Some ktp\<rparr> else priv)"

definition get_struct_tracepoint :: "host \<Rightarrow> string \<Rightarrow> tracepoint option" where
  "get_struct_tracepoint h nm =
     tp (foldl (\<lambda>priv ktp. fill_tp_by_name ktp priv)
           \<lparr> tp = None, probe = None, tp_and_name.name = nm, registered = 0 \<rparr>
           (kernel_tracepoints h))"

definition EINVAL :: int where "EINVAL = 22"
definition EFAULT :: int where "EFAULT = 14"

text \<open>
  The first loop of \<open>register_tracepoints\<close>, from index \<open>i\<close>; it returns whether it ran
  to the end (\<open>False\<close> is the \<open>goto out_err\<close>). The array is the global \<open>tps\<close>.
\<close>

function register_loop :: "nat \<Rightarrow> nat \<Rightarrow> rtsl_system \<Rightarrow> bool \<times> rtsl_system" where
  "register_loop i count s =
     (if i < count then
        let t = get_struct_tracepoint (kernel s) (tp_and_name.name (tps s ! i));
            s1 = s\<lparr>tps := (tps s)[i := (tps s ! i)\<lparr>tp := t\<rparr>]\<rparr>
        in case t of
             None \<Rightarrow> (False, s1)
           | Some ktp \<Rightarrow>
               let s2 = s1\<lparr>tps := (tps s1)[i := (tps s1 ! i)\<lparr>registered := 1\<rparr>]\<rparr>;
                   (retval, s3) = tracepoint_probe_register ktp (probe (tps s2 ! i)) s2
               in if retval \<noteq> 0 then (False, s3)
                  else register_loop (Suc i) count s3
      else (True, s))"
  by pat_completeness auto
termination
  by (relation "measure (\<lambda>(i, count, s). count - i)") auto

declare register_loop.simps [simp del]

definition out_err_step :: "rtsl_system \<Rightarrow> nat \<Rightarrow> rtsl_system" where
  "out_err_step s i =
     (if registered (tps s ! i) = 0 then s
      else tracepoint_probe_unregister (tp (tps s ! i)) (probe (tps s ! i)) s)"

definition register_tracepoints :: "nat \<Rightarrow> rtsl_system \<Rightarrow> int \<times> rtsl_system" where
  "register_tracepoints count s =
     (let (done_all, s1) = register_loop 0 count s
      in if done_all then (0, s1)
         else (- EINVAL, foldl out_err_step s1 [0..<count]))"

definition unregister_step :: "rtsl_system \<Rightarrow> nat \<Rightarrow> rtsl_system" where
  "unregister_step s i =
     (if registered (tps s ! i) = 0 then s
      else
        let s1 = tracepoint_probe_unregister (tp (tps s ! i)) (probe (tps s ! i)) s
        in s1\<lparr>tps := (tps s1)[i := (tps s1 ! i)\<lparr>registered := 0\<rparr>]\<rparr>)"

definition unregister_tracepoints :: "nat \<Rightarrow> rtsl_system \<Rightarrow> rtsl_system" where
  "unregister_tracepoints count s = foldl unregister_step s [0..<count]"

text \<open>The table \<open>tps\<close> as the source initialises it; \<open>IRQ_VECTOR\<close> is the compile-time switch.\<close>

definition NR_TP :: nat where "NR_TP = 18"

definition tp_entry :: "probe_fn \<Rightarrow> string \<Rightarrow> tp_and_name" where
  "tp_entry p nm = \<lparr> tp = None, probe = Some p, tp_and_name.name = nm, registered = 0 \<rparr>"

definition tps_init :: "bool \<Rightarrow> tp_and_name list" where
  "tps_init IRQ_VECTOR =
     [ tp_entry P_handle_nmi_entry ''nmi_entry'',
       tp_entry P_handle_nmi_exit ''nmi_exit'',
       tp_entry P_handle_irq_disable ''irq_disable'',
       tp_entry P_handle_irq_enable ''irq_enable'',
       tp_entry P_handle_irq_vector_entry ''local_timer_entry'',
       (if IRQ_VECTOR then tp_entry P_handle_irq_vector_entry ''external_interrupt_entry''
        else tp_entry P_handle_irq_entry ''irq_handler_entry''),
       tp_entry P_handle_irq_vector_entry ''thermal_apic_entry'',
       tp_entry P_handle_irq_vector_entry ''deferred_error_apic_entry'',
       tp_entry P_handle_irq_vector_entry ''threshold_apic_entry'',
       tp_entry P_handle_irq_vector_entry ''call_function_single_entry'',
       tp_entry P_handle_irq_vector_entry ''call_function_entry'',
       tp_entry P_handle_irq_vector_entry ''reschedule_entry'',
       tp_entry P_handle_irq_vector_entry ''irq_work_entry'',
       tp_entry P_handle_irq_vector_entry ''x86_platform_ipi_entry'',
       tp_entry P_handle_irq_vector_entry ''error_apic_entry'',
       tp_entry P_handle_irq_vector_entry ''spurious_apic_entry'',
       tp_entry P_handle_preempt_disable ''preempt_disable'',
       tp_entry P_handle_preempt_enable ''preempt_enable'' ]"

section \<open>The enable interface\<close>

definition rtsl_enable :: "rtsl_system \<Rightarrow> int \<times> rtsl_system" where
  "rtsl_enable s =
     (let s1 = rtsl_var_init_all s;
          (err, s2) = register_tracepoints NR_TP s1
      in if err \<noteq> 0 then (- EINVAL, s2)
         else (0, atomic_set_global_rtsl_enable 1 s2))"

definition rtsl_disable :: "rtsl_system \<Rightarrow> rtsl_system" where
  "rtsl_disable s =
     (let s1 = atomic_set_global_rtsl_enable 0 s;
          s2 = rtsl_var_destroy_all s1
      in unregister_tracepoints NR_TP s2)"

section \<open>The control file\<close>

text \<open>
  \<open>interface_lock\<close> serialises the two file operations; one operation at a time is
  what the functions below describe. Return values are \<open>ssize_t\<close>, read as integers;
  \<open>to_c_int\<close> is the conversion to the 32-bit \<open>int retval\<close>.
\<close>

definition to_c_int :: "int \<Rightarrow> int" where
  "to_c_int r = sint (word_of_int r :: 32 word)"

definition NUL :: char where
  "NUL = CHR 0x00"

text \<open>\<open>sprintf(buf, "%x\n", ...)\<close>: lower-case hexadecimal, then the terminating NUL.\<close>

definition hex_digit :: "nat \<Rightarrow> char" where
  "hex_digit d = ''0123456789abcdef'' ! (d mod 16)"

fun sprintf_x :: "nat \<Rightarrow> string" where
  "sprintf_x n = (if n < 16 then [hex_digit n] else sprintf_x (n div 16) @ [hex_digit (n mod 16)])"

declare sprintf_x.simps [simp del]

definition sprintf :: "char list \<Rightarrow> string \<Rightarrow> char list" where
  "sprintf buf str = str @ [NUL] @ drop (length str + 1) buf"

definition strlen :: "char list \<Rightarrow> nat" where
  "strlen buf = length (takeWhile (\<lambda>c. c \<noteq> NUL) buf)"

text \<open>
  The host's copy helpers are not under src/; the file operations take them as
  parameters. A read helper gets \<open>count\<close>, \<open>*ppos\<close>, the kernel buffer and the number
  of bytes available in it, and answers its return value, the bytes it stored into the
  user buffer and the new \<open>*ppos\<close>. A write helper gets the kernel buffer (an array, by
  index), its size, \<open>*ppos\<close>, the user's bytes and \<open>count\<close>, and answers its return
  value, the kernel buffer afterwards and the new \<open>*ppos\<close>.
\<close>

type_synonym read_helper = "nat \<Rightarrow> int \<Rightarrow> char list \<Rightarrow> nat \<Rightarrow> int \<times> char list \<times> int"

type_synonym write_helper =
  "(nat \<Rightarrow> char) \<Rightarrow> nat \<Rightarrow> int \<Rightarrow> char list \<Rightarrow> nat \<Rightarrow> int \<times> (nat \<Rightarrow> char) \<times> int"

definition rtsl_enable_read_data ::
  "read_helper \<Rightarrow> nat \<Rightarrow> int \<Rightarrow> rtsl_system \<Rightarrow> int \<times> char list \<times> int" where
  "rtsl_enable_read_data simple_read_from_buffer count ppos s =
     (let buf0 = replicate 4 NUL;
          enabled = rtsl_enabled (global_rtsl_enable s);
          buf = sprintf buf0 (sprintf_x (if enabled then 1 else 0) @ [CHR 0x0A])
      in simple_read_from_buffer count ppos buf (strlen buf + 1))"

definition rtsl_enable_write_data ::
  "write_helper \<Rightarrow> char list \<Rightarrow> nat \<Rightarrow> int \<Rightarrow> rtsl_system \<Rightarrow> int \<times> int \<times> rtsl_system" where
  "rtsl_enable_write_data simple_write_to_buffer user_buf count ppos s =
     (if count < 1 \<or> count > 3 then (- EINVAL, ppos, s)
      else
        let buf0 = (\<lambda>i. NUL);
            (r, buf, ppos1) = simple_write_to_buffer buf0 (3 - 1) ppos user_buf count;
            retval = to_c_int r
        in if retval = 0 then (- EFAULT, ppos1, s)
           else if buf 0 = CHR ''1'' then
             let s1 = (if rtsl_enabled (global_rtsl_enable s) then rtsl_disable s else s);
                 (err, s2) = rtsl_enable s1
             in (retval, ppos1, s2)
           else if buf 0 = CHR ''0'' then
             (retval, ppos1,
              if rtsl_enabled (global_rtsl_enable s) then rtsl_disable s else s)
           else (- EINVAL, ppos1, s))"

text \<open>
  \<open>simple_read_from_buffer\<close> and \<open>simple_write_to_buffer\<close> of the host (fs/libfs.c, not
  under src/), for a user copy that succeeds: they move at most \<open>available - *ppos\<close>
  bytes, starting at \<open>*ppos\<close>, and advance \<open>*ppos\<close>. They are the helpers that the
  sample runs below use.
\<close>

definition libfs_read_from_buffer :: read_helper where
  "libfs_read_from_buffer count ppos from available =
     (if ppos < 0 then (- EINVAL, [], ppos)
      else if nat ppos \<ge> available \<or> count = 0 then (0, [], ppos)
      else
        let n = min count (available - nat ppos)
        in (int n, take n (drop (nat ppos) from), ppos + int n))"

definition libfs_write_to_buffer :: write_helper where
  "libfs_write_to_buffer to available ppos from count =
     (if ppos < 0 then (- EINVAL, to, ppos)
      else if nat ppos \<ge> available \<or> count = 0 then (0, to, ppos)
      else
        let n = min count (available - nat ppos)
        in (int n,
            (\<lambda>i. if nat ppos \<le> i \<and> i < nat ppos + n \<and> i - nat ppos < length from
                 then from ! (i - nat ppos) else to i),
            ppos + int n))"

section \<open>Reading the emitted records\<close>

text \<open>The durations of the max records of each kind, in the order of emission.\<close>

fun max_poid_values :: "trace list \<Rightarrow> u64 list" where
  "max_poid_values [] = []"
| "max_poid_values (trace_max_poid d # out) = d # max_poid_values out"
| "max_poid_values (r # out) = max_poid_values out"

fun max_paie_values :: "trace list \<Rightarrow> u64 list" where
  "max_paie_values [] = []"
| "max_paie_values (trace_max_paie d # out) = d # max_paie_values out"
| "max_paie_values (r # out) = max_paie_values out"

fun max_psd_values :: "trace list \<Rightarrow> u64 list" where
  "max_psd_values [] = []"
| "max_psd_values (trace_max_psd d # out) = d # max_psd_values out"
| "max_psd_values (r # out) = max_psd_values out"

fun max_dst_values :: "trace list \<Rightarrow> u64 list" where
  "max_dst_values [] = []"
| "max_dst_values (trace_max_dst d # out) = d # max_dst_values out"
| "max_dst_values (r # out) = max_dst_values out"

section \<open>A POID window with interrupts inside\<close>













section \<open>Notions used in the statements about the lifecycle\<close>

text \<open>The indices below \<open>n\<close> whose \<open>registered\<close> flag is set: what the clean-up loops visit.\<close>

definition flagged :: "tp_and_name list \<Rightarrow> nat \<Rightarrow> nat list" where
  "flagged tab n = filter (\<lambda>i. registered (tab ! i) \<noteq> 0) [0..<n]"

text \<open>
  The table holds, at an index from \<open>i\<close> up to \<open>count\<close>, an entry for this tracepoint and
  probe with its flag set.
\<close>

definition registered_entry ::
  "tp_and_name list \<Rightarrow> nat \<Rightarrow> nat \<Rightarrow> tracepoint \<Rightarrow> probe_fn option \<Rightarrow> bool" where
  "registered_entry tab i count ktp p =
     (\<exists>j. i \<le> j \<and> j < count \<and> tp (tab ! j) = Some ktp \<and> probe (tab ! j) = p
          \<and> registered (tab ! j) \<noteq> 0)"

text \<open>
  An effect of the registration loop: a registration request, accepted if the loop ran to
  its end, and recorded in the table if accepted.
\<close>

definition register_effect ::
  "bool \<Rightarrow> tp_and_name list \<Rightarrow> nat \<Rightarrow> nat \<Rightarrow> effect \<Rightarrow> bool" where
  "register_effect ok tab i count eff =
     (\<exists>ktp p r. eff = Eff_probe_register ktp p r \<and> (ok \<longrightarrow> r = 0)
               \<and> (r = 0 \<longrightarrow> registered_entry tab i count ktp p))"

text \<open>
  \<open>disable()\<close> as section 4.9 of the specification words it: clear the global flag, set
  each CPU's \<open>running\<close> to false, unregister all probes, zero the state. It is compared
  with \<open>rtsl_disable\<close> below.
\<close>

definition rtsl_disable_spec :: "rtsl_system \<Rightarrow> rtsl_system" where
  "rtsl_disable_spec s =
     (let s1 = atomic_set_global_rtsl_enable 0 s;
          s2 = rtsl_stop_all s1;
          s3 = unregister_tracepoints NR_TP s2
      in rtsl_var_destroy_all s3)"

text \<open>
  The host answers the registration request for a table entry with success: the lookup
  by name finds a tracepoint and the registry accepts the entry's probe on it. The host
  accepts the table when it does so for every entry.
\<close>

definition entry_accepted :: "host \<Rightarrow> tp_and_name \<Rightarrow> bool" where
  "entry_accepted h t =
     (case get_struct_tracepoint h (tp_and_name.name t) of
        None \<Rightarrow> False
      | Some ktp \<Rightarrow> register_errno h (ktp, probe t) = 0)"

definition host_accepts :: "rtsl_system \<Rightarrow> bool" where
  "host_accepts s = list_all (entry_accepted (kernel s)) (take NR_TP (tps s))"

text \<open>
  Two systems put the same requests to the same host: the tracepoints known to the
  host, its answers and its online CPUs agree, and so do the names and probes of the
  two tables.
\<close>

definition same_requests :: "rtsl_system \<Rightarrow> rtsl_system \<Rightarrow> bool" where
  "same_requests s s' =
     (kernel_tracepoints (kernel s') = kernel_tracepoints (kernel s)
      \<and> register_errno (kernel s') = register_errno (kernel s)
      \<and> cpu_online_mask (kernel s') = cpu_online_mask (kernel s)
      \<and> map tp_and_name.name (tps s') = map tp_and_name.name (tps s)
      \<and> map probe (tps s') = map probe (tps s))"

text \<open>
  Entry \<open>j\<close> of the table is hooked: it holds the tracepoint found for it, its flag is
  set and its probe is attached to that tracepoint.
\<close>

definition hooked :: "rtsl_system \<Rightarrow> nat \<Rightarrow> bool" where
  "hooked s j =
     (\<exists>ktp. tp (tps s ! j) = Some ktp \<and> (ktp, probe (tps s ! j)) \<in> attached (kernel s)
            \<and> registered (tps s ! j) \<noteq> 0)"

section \<open>Sample inputs\<close>

text \<open>
  A host view in which every clock read of the invocation returns \<open>t\<close>, the current task
  is \<open>p\<close>, no re-schedule is pending, interrupts are on and rtsl is enabled; and a CPU
  that has just started on zeroed state.
\<close>

definition env_at :: "u64 \<Rightarrow> pid_t \<Rightarrow> env" where
  "env_at t p =
     \<lparr> clock = (\<lambda>k. t), current_pid = p, tif_need_resched_now = False,
       irqs_disabled = False, atomic_read_enable = 1 \<rparr>"

definition cpu_started :: rtsl_variables where
  "cpu_started = rtsl_start rtsl_var_zero"

text \<open>A running CPU with POID, PSD and DST open.\<close>

definition poid_open_idle :: rtsl_variables where
  "poid_open_idle =
     cpu_started\<lparr>poid := (poid cpu_started)\<lparr>poid.pd := True, poid.delta_start := 1000\<rparr>,
                 psd := (psd cpu_started)\<lparr>psd.delta_start := 500\<rparr>,
                 dst := (dst cpu_started)\<lparr>dst.delta_start := 700\<rparr>\<rparr>"

text \<open>The same host view with a re-schedule pending.\<close>

definition env_resched :: "u64 \<Rightarrow> pid_t \<Rightarrow> env" where
  "env_resched t p = (env_at t p)\<lparr>tif_need_resched_now := True\<rparr>"

text \<open>
  A CPU starts in a scheduler call. Then, twice over, a thread holds preemption off for
  2000 ns, a re-schedule is pending when it enables preemption, and the scheduler is
  entered 300 ns later and runs for 100 ns.
\<close>

definition tie_trace :: "(event \<times> env) list" where
  "tie_trace =
     [(Preempt_disable 1, env_at 100 1), (Preempt_enable 1, env_at 200 1),
      (Preempt_disable 0, env_at 1000 1), (Preempt_enable 0, env_resched 3000 1),
      (Preempt_disable 1, env_resched 3300 1), (Preempt_enable 1, env_at 3400 1),
      (Preempt_disable 0, env_at 5000 1), (Preempt_enable 0, env_resched 7000 1),
      (Preempt_disable 1, env_resched 7300 1), (Preempt_enable 1, env_at 7400 1)]"

text \<open>
  The states of that CPU before the last three events: before the second POID window is
  closed, before the second PAIE window is closed, and before the last scheduler call
  ends. And a CPU on which a thread has had interrupts off since 5000, with a POID
  maximum of 100.
\<close>

definition poid_tie_state :: rtsl_variables where
  "poid_tie_state =
     cpu_started\<lparr>poid := \<lparr> poid.pd = True, poid.id = False, poid.delta_start = 5000, poid.max = 2000 \<rparr>,
                 paie := \<lparr> paie.delta_start = 0, paie.max = 300 \<rparr>,
                 psd := \<lparr> psd.delta_start = 0, psd.max = 100 \<rparr>,
                 dst := (dst cpu_started)\<lparr>dst.pid := 1\<rparr>\<rparr>"

definition paie_tie_state :: rtsl_variables where
  "paie_tie_state =
     poid_tie_state\<lparr>poid := \<lparr> poid.pd = False, poid.id = False, poid.delta_start = 0, poid.max = 2000 \<rparr>,
                    paie := \<lparr> paie.delta_start = 7000, paie.max = 300 \<rparr>\<rparr>"

definition psd_tie_state :: rtsl_variables where
  "psd_tie_state =
     paie_tie_state\<lparr>paie := \<lparr> paie.delta_start = 0, paie.max = 300 \<rparr>,
                    psd := \<lparr> psd.delta_start = 7300, psd.max = 100 \<rparr>\<rparr>"

definition id_tie_state :: rtsl_variables where
  "id_tie_state =
     cpu_started\<lparr>poid := \<lparr> poid.pd = False, poid.id = True, poid.delta_start = 5000, poid.max = 100 \<rparr>\<rparr>"



text \<open>
  A system after boot: two CPUs, the table as initialised (generic IRQ entry), a host
  that knows every tracepoint of the table and accepts every registration.
\<close>

definition sys_boot :: rtsl_system where
  "sys_boot =
     \<lparr> global_rtsl_enable = 0,
       per_cpu_rtsl_var = (\<lambda>cpu. rtsl_var_zero),
       tps = tps_init False,
       kernel = \<lparr> kernel_tracepoints =
                    map (\<lambda>t. \<lparr> tracepoint.name = tp_and_name.name t \<rparr>) (tps_init False),
                  attached = {},
                  register_errno = (\<lambda>x. 0),
                  cpu_online_mask = [0, 1] \<rparr>,
       history = [] \<rparr>"

text \<open>The same system on a host that answers \<open>-ENOMEM\<close> (-12) for the probe of nmi_exit.\<close>

definition sys_refusing :: rtsl_system where
  "sys_refusing =
     sys_boot\<lparr>kernel := (kernel sys_boot)
        \<lparr>register_errno := (\<lambda>(t, p). if tracepoint.name t = ''nmi_exit'' then - 12 else 0)\<rparr>\<rparr>"

text \<open>The system with rtsl enabled: every probe of the table registered and attached.\<close>

definition sys_enabled :: rtsl_system where
  "sys_enabled =
     sys_boot\<lparr>global_rtsl_enable := 1,
              tps := map (\<lambda>t. t\<lparr>tp := Some \<lparr> tracepoint.name = tp_and_name.name t \<rparr>,
                                 registered := 1\<rparr>)
                         (tps_init False),
              kernel := (kernel sys_boot)
                \<lparr>attached := set (map (\<lambda>t. (\<lparr> tracepoint.name = tp_and_name.name t \<rparr>, probe t))
                                     (tps_init False))\<rparr>\<rparr>"

section \<open>Unfolding rules\<close>

lemmas prim_defs = get_int_safe_duration_def set_int_safe_delta_start_def
  are_poid_def is_pd_def is_id_def is_paie_def is_psd_def is_irq_def is_dst_def
  rtsl_running_def rtsl_enabled_def rtsl_start_def rtsl_stop_def

lemmas handler_defs = handle_nmi_entry_def handle_nmi_exit_def handle_irq_disable_def
  handle_irq_disable_irq_def handle_irq_disable_normal_def handle_irq_enable_def
  handle_irq_enable_irq_def handle_irq_enable_normal_def irq_occurence_def
  handle_irq_vector_entry_def handle_irq_entry_def handle_preempt_disable_def
  handle_preempt_enable_def handle_preempt_enable_sched_def handle_preempt_enable_nosched_def
  handle_preempt_disable_nosched_def handle_preempt_disable_sched_def rtsl_initialized_def
  poid_duration_def paie_duration_def

lemmas sample_defs = env_at_def cpu_started_def rtsl_var_zero_def poid_open_idle_def

lemmas tie_defs = tie_trace_def env_resched_def poid_tie_state_def paie_tie_state_def
  psd_tie_state_def id_tie_state_def

section \<open>The schedule-path preempt-enable handler\<close>

text \<open>
  Claim C10. The schedule-path preempt-enable handler closes PSD without testing whether
  it is open: on a running CPU whose PSD start is 0 it emits a psd record whose duration
  is the clock value read at the close minus 0. The DST closure of the same handler is
  guarded: when DST is not open, no dst or max_dst record is emitted and the DST fields
  stay as they are.
\<close>

theorem psd_closed_unconditionally:
  assumes "rtsl_running v" and "psd.delta_start (psd v) = 0"
  shows "trace_psd (clock e (if is_dst (dst v) then 1 else 0) - 0)
           \<in> set (snd (handle_preempt_enable_sched e v))
         \<and> (\<not> is_dst (dst v) \<longrightarrow>
              dst (fst (handle_preempt_enable_sched e v)) = dst v
              \<and> (\<forall>d. trace_dst d \<notin> set (snd (handle_preempt_enable_sched e v))
                    \<and> trace_max_dst d \<notin> set (snd (handle_preempt_enable_sched e v))))"
  using assms
  by (simp add: handle_preempt_enable_sched_def prim_defs Let_def split: prod.splits)

theorem psd_closed_unconditionally_witness:
  "rtsl_running cpu_started \<and> psd.delta_start (psd cpu_started) = 0
   \<and> \<not> is_dst (dst cpu_started)
   \<and> trace_psd 5000 \<in> set (snd (handle_preempt_enable_sched (env_at 5000 7) cpu_started))
   \<and> (\<forall>d. trace_dst d \<notin> set (snd (handle_preempt_enable_sched (env_at 5000 7) cpu_started)))"
  using psd_closed_unconditionally [of cpu_started "env_at 5000 7"]
  by (simp add: sample_defs prim_defs)



section \<open>The idle filter\<close>

text \<open>
  Claim C3. Whatever event is handled while the current task is the idle task (pid 0),
  and so whenever a POID or PAIE window is closed in that context, no poid, max_poid,
  paie or max_paie record is emitted, and the stored POID and PAIE maxima are not
  updated.
\<close>

theorem idle_filter:
  assumes "current_pid e = 0" and "deliver ev e v = (v', out)"
  shows "(\<forall>d. trace_poid d \<notin> set out \<and> trace_max_poid d \<notin> set out
              \<and> trace_paie d \<notin> set out \<and> trace_max_paie d \<notin> set out)
         \<and> poid.max (poid v') = poid.max (poid v)
         \<and> paie.max (paie v') = paie.max (paie v)"
  using assms
  by (cases ev) (auto simp: handler_defs prim_defs Let_def split: if_splits prod.splits)

theorem idle_filter_witness:
  "current_pid (env_at 3000 0) = 0
   \<and> deliver (Preempt_enable 0) (env_at 3000 0) poid_open_idle
       = (poid_open_idle\<lparr>poid := (poid poid_open_idle)\<lparr>poid.pd := False, poid.delta_start := 0\<rparr>\<rparr>, [])
   \<and> poid.max (poid (fst (deliver (Preempt_enable 0) (env_at 3000 0) poid_open_idle))) = 0"
  using idle_filter [of "env_at 3000 0" "Preempt_enable 0" poid_open_idle
      "fst (deliver (Preempt_enable 0) (env_at 3000 0) poid_open_idle)"
      "snd (deliver (Preempt_enable 0) (env_at 3000 0) poid_open_idle)"]
  by (simp add: sample_defs handler_defs prim_defs)

section \<open>The initial condition\<close>

text \<open>
  Claim C8. On a CPU that is not running, the only event that sets \<open>running\<close> is the
  schedule-path preempt-disable, and only when rtsl is enabled and interrupts are on.
  In every other case (another event, rtsl disabled, or interrupts off) the handler
  leaves the state as it is, \<open>running\<close> false, and emits nothing.
\<close>

theorem running_starts_only_in_preempt_disable_sched:
  assumes "\<not> running v"
  shows "if (\<exists>to_schedule. ev = Preempt_disable to_schedule \<and> to_schedule \<noteq> 0)
            \<and> rtsl_enabled (atomic_read_enable e) \<and> \<not> irqs_disabled e
         then running (fst (deliver ev e v))
         else deliver ev e v = (v, [])"
  using assms
  by (cases ev) (auto simp: handler_defs prim_defs Let_def split: if_splits prod.splits)

theorem running_starts_only_in_preempt_disable_sched_witness:
  "\<not> running rtsl_var_zero
   \<and> running (fst (deliver (Preempt_disable 1) (env_at 3000 0) rtsl_var_zero))
   \<and> deliver (Preempt_disable 1) ((env_at 3000 0)\<lparr>irqs_disabled := True\<rparr>) rtsl_var_zero
       = (rtsl_var_zero, [])
   \<and> deliver (Preempt_disable 0) (env_at 3000 0) rtsl_var_zero = (rtsl_var_zero, [])"
  using running_starts_only_in_preempt_disable_sched
          [of rtsl_var_zero "Preempt_disable 1" "env_at 3000 0"]
        running_starts_only_in_preempt_disable_sched
          [of rtsl_var_zero "Preempt_disable 1" "(env_at 3000 0)\<lparr>irqs_disabled := True\<rparr>"]
        running_starts_only_in_preempt_disable_sched
          [of rtsl_var_zero "Preempt_disable 0" "env_at 3000 0"]
  by (simp add: sample_defs prim_defs)

section \<open>Interference removal\<close>










section \<open>The max records\<close>

lemma max_poid_values_append:
  "max_poid_values (a @ b) = max_poid_values a @ max_poid_values b"
  by (induction a rule: max_poid_values.induct) simp_all

lemma max_paie_values_append:
  "max_paie_values (a @ b) = max_paie_values a @ max_paie_values b"
  by (induction a rule: max_paie_values.induct) simp_all

lemma max_psd_values_append:
  "max_psd_values (a @ b) = max_psd_values a @ max_psd_values b"
  by (induction a rule: max_psd_values.induct) simp_all

lemma max_dst_values_append:
  "max_dst_values (a @ b) = max_dst_values a @ max_dst_values b"
  by (induction a rule: max_dst_values.induct) simp_all

text \<open>
  One event emits at most one max record of a kind, and the stored maximum follows it.
  POID and PAIE emit when the duration is not below the maximum; PSD and DST when it is
  above.
\<close>

lemma step_max_poid:
  assumes "deliver ev e v = (v', out)"
  shows "(max_poid_values out = [] \<and> poid.max (poid v') = poid.max (poid v))
         \<or> (\<exists>d. max_poid_values out = [d] \<and> poid.max (poid v) \<le> d \<and> poid.max (poid v') = d)"
  using assms
  by (cases ev) (auto simp: handler_defs prim_defs Let_def split: if_splits prod.splits)

lemma step_max_paie:
  assumes "deliver ev e v = (v', out)"
  shows "(max_paie_values out = [] \<and> paie.max (paie v') = paie.max (paie v))
         \<or> (\<exists>d. max_paie_values out = [d] \<and> paie.max (paie v) \<le> d \<and> paie.max (paie v') = d)"
  using assms
  by (cases ev) (auto simp: handler_defs prim_defs Let_def split: if_splits prod.splits)

lemma step_max_psd:
  assumes "deliver ev e v = (v', out)"
  shows "(max_psd_values out = [] \<and> psd.max (psd v') = psd.max (psd v))
         \<or> (\<exists>d. max_psd_values out = [d] \<and> psd.max (psd v) < d \<and> psd.max (psd v') = d)"
  using assms
  by (cases ev) (auto simp: handler_defs prim_defs Let_def split: if_splits prod.splits)

lemma step_max_dst:
  assumes "deliver ev e v = (v', out)"
  shows "(max_dst_values out = [] \<and> dst.max (dst v') = dst.max (dst v))
         \<or> (\<exists>d. max_dst_values out = [d] \<and> dst.max (dst v) < d \<and> dst.max (dst v') = d)"
  using assms
  by (cases ev) (auto simp: handler_defs prim_defs Let_def split: if_splits prod.splits)

text \<open>
  Along a run, for any way \<open>vals\<close> of reading values off the records and any stored
  maximum \<open>mx\<close> that each step treats as above, with respect to a transitive order.
\<close>

lemma run_ordered:
  fixes vals :: "trace list \<Rightarrow> u64 list" and mx :: "rtsl_variables \<Rightarrow> u64"
  assumes nil: "vals [] = []"
    and app: "\<And>a b. vals (a @ b) = vals a @ vals b"
    and step: "\<And>ev e v v' out. deliver ev e v = (v', out) \<Longrightarrow>
                 (vals out = [] \<and> mx v' = mx v) \<or> (\<exists>d. vals out = [d] \<and> R (mx v) d \<and> mx v' = d)"
    and trans: "\<And>a b c. R a b \<Longrightarrow> R b c \<Longrightarrow> R a c"
    and run: "run evs v = (v', out)"
  shows "sorted_wrt R (vals out) \<and> (\<forall>x \<in> set (vals out). R (mx v) x)"
  using run
proof (induction evs arbitrary: v v' out)
  case Nil
  then show ?case by (simp add: nil)
next
  case (Cons a evs)
  obtain ev e where a: "a = (ev, e)" by (cases a)
  obtain v1 out1 where d: "deliver ev e v = (v1, out1)" by (cases "deliver ev e v")
  obtain v2 out2 where r: "run evs v1 = (v2, out2)" by (cases "run evs v1")
  from Cons.prems a d r have out: "out = out1 @ out2" by simp
  from Cons.IH [OF r] have ih: "sorted_wrt R (vals out2)" "\<forall>x \<in> set (vals out2). R (mx v1) x"
    by simp_all
  from step [OF d] show ?case
  proof
    assume "vals out1 = [] \<and> mx v1 = mx v"
    with ih out show ?thesis by (simp add: app)
  next
    assume "\<exists>d. vals out1 = [d] \<and> R (mx v) d \<and> mx v1 = d"
    then obtain d where d1: "vals out1 = [d]" "R (mx v) d" "mx v1 = d" by blast
    with ih have "\<forall>x \<in> set (vals out2). R d x" by simp
    moreover from this d1(2) have "\<forall>x \<in> set (vals out2). R (mx v) x" using trans by blast
    ultimately show ?thesis using ih(1) d1 out by (simp add: app)
  qed
qed

text \<open>
  Claim C2, as the code has it. Along any sequence of events that one CPU handles
  between two resets of its state, the emitted max_psd values and the emitted max_dst
  values are strictly increasing, and the emitted max_poid values and max_paie values
  never decrease. A max_poid or max_paie record is emitted again on a tie: when a
  running CPU closes a POID window for a task other than idle (by a preempt-enable
  outside an interrupt with interrupts not disabled by the thread, or by an IRQ-enable
  with preemption enabled outside a scheduler call), it emits a max_poid record exactly
  when the duration is greater than or equal to the stored maximum, which becomes that
  duration; when it closes a PAIE window for a task other than idle (by the
  schedule-path preempt-disable with a re-schedule pending, outside an interrupt and
  with interrupts not disabled by the thread), it emits a max_paie record exactly when
  the duration is greater than or equal to the stored maximum, which becomes that
  duration. The schedule-path preempt-enable emits a max_psd record, and a max_dst
  record when DST is open, exactly when the duration is strictly greater than the
  stored maximum, which becomes that duration.
\<close>

theorem max_records_monotone:
  "sorted_wrt (\<le>) (max_poid_values (snd (run evs v)))
   \<and> sorted_wrt (\<le>) (max_paie_values (snd (run evs v)))
   \<and> sorted_wrt (<) (max_psd_values (snd (run evs v)))
   \<and> sorted_wrt (<) (max_dst_values (snd (run evs v)))
   \<and> (rtsl_running u \<and> \<not> is_irq (irq u) \<and> \<not> is_id (poid u) \<and> are_poid (poid u)
        \<and> current_pid e \<noteq> 0 \<longrightarrow>
        (let d = clock e 0 - poid.delta_start (poid u);
             r = deliver (Preempt_enable 0) e u
         in max_poid_values (snd r) = (if poid.max (poid u) \<le> d then [d] else [])
            \<and> poid.max (poid (fst r)) = (if poid.max (poid u) \<le> d then d else poid.max (poid u))))
   \<and> (rtsl_running u \<and> \<not> is_pd (poid u) \<and> \<not> is_psd (psd u) \<and> are_poid (poid u)
        \<and> current_pid e \<noteq> 0 \<longrightarrow>
        (let d = clock e 0 - poid.delta_start (poid u);
             r = deliver (Irq_enable 0) e u
         in max_poid_values (snd r) = (if poid.max (poid u) \<le> d then [d] else [])
            \<and> poid.max (poid (fst r)) = (if poid.max (poid u) \<le> d then d else poid.max (poid u))))
   \<and> (rtsl_running u \<and> to_schedule \<noteq> 0 \<and> tif_need_resched_now e \<and> \<not> is_irq (irq u)
        \<and> \<not> is_id (poid u) \<and> is_paie (paie u) \<and> current_pid e \<noteq> 0 \<longrightarrow>
        (let d = clock e 0 - paie.delta_start (paie u);
             r = deliver (Preempt_disable to_schedule) e u
         in max_paie_values (snd r) = (if paie.max (paie u) \<le> d then [d] else [])
            \<and> paie.max (paie (fst r)) = (if paie.max (paie u) \<le> d then d else paie.max (paie u))))
   \<and> (rtsl_running u \<and> to_schedule \<noteq> 0 \<longrightarrow>
        (let dd = clock e 0 - dst.delta_start (dst u);
             pdur = clock e (if is_dst (dst u) then 1 else 0) - psd.delta_start (psd u);
             r = deliver (Preempt_enable to_schedule) e u
         in max_psd_values (snd r) = (if psd.max (psd u) < pdur then [pdur] else [])
            \<and> psd.max (psd (fst r)) = (if psd.max (psd u) < pdur then pdur else psd.max (psd u))
            \<and> max_dst_values (snd r) = (if is_dst (dst u) \<and> dst.max (dst u) < dd then [dd] else [])
            \<and> dst.max (dst (fst r))
                = (if is_dst (dst u) \<and> dst.max (dst u) < dd then dd else dst.max (dst u))))"
proof -
  obtain v' out where r: "run evs v = (v', out)" by (cases "run evs v")
  have "sorted_wrt (\<le>) (max_poid_values out)"
    using run_ordered [where vals = max_poid_values and mx = "\<lambda>v. poid.max (poid v)"
        and R = "(\<le>)", OF _ max_poid_values_append step_max_poid _ r]
    by auto
  moreover have "sorted_wrt (\<le>) (max_paie_values out)"
    using run_ordered [where vals = max_paie_values and mx = "\<lambda>v. paie.max (paie v)"
        and R = "(\<le>)", OF _ max_paie_values_append step_max_paie _ r]
    by auto
  moreover have "sorted_wrt (<) (max_psd_values out)"
    using run_ordered [where vals = max_psd_values and mx = "\<lambda>v. psd.max (psd v)"
        and R = "(<)", OF _ max_psd_values_append step_max_psd _ r]
    by auto
  moreover have "sorted_wrt (<) (max_dst_values out)"
    using run_ordered [where vals = max_dst_values and mx = "\<lambda>v. dst.max (dst v)"
        and R = "(<)", OF _ max_dst_values_append step_max_dst _ r]
    by auto
  moreover have "rtsl_running u \<and> \<not> is_irq (irq u) \<and> \<not> is_id (poid u) \<and> are_poid (poid u)
        \<and> current_pid e \<noteq> 0 \<longrightarrow>
        (let d = clock e 0 - poid.delta_start (poid u);
             r = deliver (Preempt_enable 0) e u
         in max_poid_values (snd r) = (if poid.max (poid u) \<le> d then [d] else [])
            \<and> poid.max (poid (fst r)) = (if poid.max (poid u) \<le> d then d else poid.max (poid u)))"
    by (auto simp: handler_defs prim_defs Let_def split: prod.splits)
  moreover have "rtsl_running u \<and> \<not> is_pd (poid u) \<and> \<not> is_psd (psd u) \<and> are_poid (poid u)
        \<and> current_pid e \<noteq> 0 \<longrightarrow>
        (let d = clock e 0 - poid.delta_start (poid u);
             r = deliver (Irq_enable 0) e u
         in max_poid_values (snd r) = (if poid.max (poid u) \<le> d then [d] else [])
            \<and> poid.max (poid (fst r)) = (if poid.max (poid u) \<le> d then d else poid.max (poid u)))"
    by (auto simp: handler_defs prim_defs Let_def split: prod.splits)
  moreover have "rtsl_running u \<and> to_schedule \<noteq> 0 \<and> tif_need_resched_now e \<and> \<not> is_irq (irq u)
        \<and> \<not> is_id (poid u) \<and> is_paie (paie u) \<and> current_pid e \<noteq> 0 \<longrightarrow>
        (let d = clock e 0 - paie.delta_start (paie u);
             r = deliver (Preempt_disable to_schedule) e u
         in max_paie_values (snd r) = (if paie.max (paie u) \<le> d then [d] else [])
            \<and> paie.max (paie (fst r)) = (if paie.max (paie u) \<le> d then d else paie.max (paie u)))"
    by (auto simp: handler_defs prim_defs Let_def split: prod.splits)
  moreover have "rtsl_running u \<and> to_schedule \<noteq> 0 \<longrightarrow>
        (let dd = clock e 0 - dst.delta_start (dst u);
             pdur = clock e (if is_dst (dst u) then 1 else 0) - psd.delta_start (psd u);
             r = deliver (Preempt_enable to_schedule) e u
         in max_psd_values (snd r) = (if psd.max (psd u) < pdur then [pdur] else [])
            \<and> psd.max (psd (fst r)) = (if psd.max (psd u) < pdur then pdur else psd.max (psd u))
            \<and> max_dst_values (snd r) = (if is_dst (dst u) \<and> dst.max (dst u) < dd then [dd] else [])
            \<and> dst.max (dst (fst r))
                = (if is_dst (dst u) \<and> dst.max (dst u) < dd then dd else dst.max (dst u)))"
    by (auto simp: handler_defs prim_defs Let_def max_psd_values_append max_dst_values_append
             split: prod.splits)
  ultimately show ?thesis using r by simp
qed

text \<open>The sample states are the states of the sample run.\<close>

lemma tie_trace_states:
  "fst (run (take 7 tie_trace) rtsl_var_zero) = poid_tie_state
   \<and> fst (run (take 8 tie_trace) rtsl_var_zero) = paie_tie_state
   \<and> fst (run (take 9 tie_trace) rtsl_var_zero) = psd_tie_state"
  by (simp add: tie_defs sample_defs handler_defs prim_defs)

theorem max_records_monotone_witness:
  "snd (run tie_trace rtsl_var_zero)
     = [trace_psd 100, trace_max_psd 100, trace_poid 2000, trace_max_poid 2000,
        trace_paie 300, trace_max_paie 300, trace_psd 100, trace_poid 2000,
        trace_max_poid 2000, trace_paie 300, trace_max_paie 300, trace_psd 100]
   \<and> sorted_wrt (\<le>) (max_poid_values (snd (run tie_trace rtsl_var_zero)))
   \<and> sorted_wrt (\<le>) (max_paie_values (snd (run tie_trace rtsl_var_zero)))
   \<and> sorted_wrt (<) (max_psd_values (snd (run tie_trace rtsl_var_zero)))
   \<and> (rtsl_running poid_tie_state \<and> \<not> is_irq (irq poid_tie_state) \<and> \<not> is_id (poid poid_tie_state)
        \<and> are_poid (poid poid_tie_state) \<and> current_pid (env_resched 7000 1) \<noteq> 0)
   \<and> poid.max (poid poid_tie_state) = 2000
   \<and> max_poid_values (snd (deliver (Preempt_enable 0) (env_resched 7000 1) poid_tie_state)) = [2000]
   \<and> (rtsl_running id_tie_state \<and> \<not> is_pd (poid id_tie_state) \<and> \<not> is_psd (psd id_tie_state)
        \<and> are_poid (poid id_tie_state) \<and> current_pid (env_at 5100 1) \<noteq> 0)
   \<and> poid.max (poid id_tie_state) = 100
   \<and> max_poid_values (snd (deliver (Irq_enable 0) (env_at 5100 1) id_tie_state)) = [100]
   \<and> (rtsl_running paie_tie_state \<and> (1 :: c_int) \<noteq> 0 \<and> tif_need_resched_now (env_resched 7300 1)
        \<and> \<not> is_irq (irq paie_tie_state) \<and> \<not> is_id (poid paie_tie_state)
        \<and> is_paie (paie paie_tie_state) \<and> current_pid (env_resched 7300 1) \<noteq> 0)
   \<and> paie.max (paie paie_tie_state) = 300
   \<and> max_paie_values (snd (deliver (Preempt_disable 1) (env_resched 7300 1) paie_tie_state)) = [300]
   \<and> rtsl_running psd_tie_state
   \<and> psd.max (psd psd_tie_state) = 100
   \<and> snd (deliver (Preempt_enable 1) (env_at 7400 1) psd_tie_state) = [trace_psd 100]
   \<and> max_psd_values (snd (deliver (Preempt_enable 1) (env_at 7400 1) psd_tie_state)) = []"
  using max_records_monotone [of tie_trace rtsl_var_zero poid_tie_state "env_resched 7000 1" 1]
        max_records_monotone [of tie_trace rtsl_var_zero id_tie_state "env_at 5100 1" 1]
        max_records_monotone [of tie_trace rtsl_var_zero paie_tie_state "env_resched 7300 1" 1]
        max_records_monotone [of tie_trace rtsl_var_zero psd_tie_state "env_at 7400 1" 1]
  by (simp add: tie_defs sample_defs handler_defs prim_defs)

text \<open>
  Claim C2 as stated fails: two POID windows of 2000 ns and two PAIE windows of 300 ns
  in one epoch emit max_poid 2000 twice and max_paie 300 twice, so neither sequence is
  strictly increasing.
\<close>

theorem max_poid_tie_counterexample:
  "max_poid_values (snd (run tie_trace rtsl_var_zero)) = [2000, 2000]
   \<and> \<not> sorted_wrt (<) (max_poid_values (snd (run tie_trace rtsl_var_zero)))
   \<and> max_paie_values (snd (run tie_trace rtsl_var_zero)) = [300, 300]
   \<and> \<not> sorted_wrt (<) (max_paie_values (snd (run tie_trace rtsl_var_zero)))"
  by (simp add: tie_defs sample_defs handler_defs prim_defs)

section \<open>The lifecycle loops\<close>

lemma reset_cpu_fields [simp]:
  "global_rtsl_enable (rtsl_var_reset_cpu s cpu) = global_rtsl_enable s"
  "tps (rtsl_var_reset_cpu s cpu) = tps s"
  "kernel (rtsl_var_reset_cpu s cpu) = kernel s"
  "history (rtsl_var_reset_cpu s cpu) = history s @ [Eff_var_reset cpu]"
  "per_cpu_rtsl_var (rtsl_var_reset_cpu s cpu) c
     = (if c = cpu then rtsl_var_zero else per_cpu_rtsl_var s c)"
  by (simp_all add: rtsl_var_reset_cpu_def rtsl_var_reset_def)

lemma reset_all:
  "global_rtsl_enable (foldl rtsl_var_reset_cpu s cpus) = global_rtsl_enable s
   \<and> tps (foldl rtsl_var_reset_cpu s cpus) = tps s
   \<and> kernel (foldl rtsl_var_reset_cpu s cpus) = kernel s
   \<and> history (foldl rtsl_var_reset_cpu s cpus) = history s @ map Eff_var_reset cpus
   \<and> (\<forall>c. per_cpu_rtsl_var (foldl rtsl_var_reset_cpu s cpus) c
           = (if c \<in> set cpus then rtsl_var_zero else per_cpu_rtsl_var s c))"
  by (induction cpus arbitrary: s) auto

lemma unregister_call_fields [simp]:
  "global_rtsl_enable (tracepoint_probe_unregister t p s) = global_rtsl_enable s"
  "per_cpu_rtsl_var (tracepoint_probe_unregister t p s) = per_cpu_rtsl_var s"
  "tps (tracepoint_probe_unregister t p s) = tps s"
  "history (tracepoint_probe_unregister t p s) = history s @ [Eff_probe_unregister t p]"
  "attached (kernel (tracepoint_probe_unregister t p s))
     = attached (kernel s) - (case t of None \<Rightarrow> {} | Some ktp \<Rightarrow> {(ktp, p)})"
  "cpu_online_mask (kernel (tracepoint_probe_unregister t p s)) = cpu_online_mask (kernel s)"
  by (simp_all add: tracepoint_probe_unregister_def Let_def split: option.splits)

lemma register_call_fields [simp]:
  "global_rtsl_enable (snd (tracepoint_probe_register ktp p s)) = global_rtsl_enable s"
  "per_cpu_rtsl_var (snd (tracepoint_probe_register ktp p s)) = per_cpu_rtsl_var s"
  "tps (snd (tracepoint_probe_register ktp p s)) = tps s"
  "history (snd (tracepoint_probe_register ktp p s))
     = history s @ [Eff_probe_register ktp p (fst (tracepoint_probe_register ktp p s))]"
  by (simp_all add: tracepoint_probe_register_def Let_def)

lemma flagged_Suc:
  "flagged tab (Suc n) = flagged tab n @ (if registered (tab ! n) \<noteq> 0 then [n] else [])"
  by (simp add: flagged_def)

lemma out_err_loop:
  "global_rtsl_enable (foldl out_err_step s [0..<n]) = global_rtsl_enable s
   \<and> per_cpu_rtsl_var (foldl out_err_step s [0..<n]) = per_cpu_rtsl_var s
   \<and> tps (foldl out_err_step s [0..<n]) = tps s
   \<and> history (foldl out_err_step s [0..<n])
       = history s @ map (\<lambda>i. Eff_probe_unregister (tp (tps s ! i)) (probe (tps s ! i)))
                         (flagged (tps s) n)
   \<and> attached (kernel (foldl out_err_step s [0..<n]))
       = attached (kernel s)
         - {(ktp, p). \<exists>i \<in> set (flagged (tps s) n).
                        tp (tps s ! i) = Some ktp \<and> probe (tps s ! i) = p}"
proof (induction n)
  case 0
  then show ?case by (simp add: flagged_def)
next
  case (Suc n)
  then show ?case
    by (auto simp: flagged_Suc out_err_step_def split: option.splits)
qed

lemma unregister_loop:
  assumes "n \<le> length (tps s)"
  shows "global_rtsl_enable (foldl unregister_step s [0..<n]) = global_rtsl_enable s
   \<and> per_cpu_rtsl_var (foldl unregister_step s [0..<n]) = per_cpu_rtsl_var s
   \<and> length (tps (foldl unregister_step s [0..<n])) = length (tps s)
   \<and> (\<forall>j < length (tps s). tps (foldl unregister_step s [0..<n]) ! j
         = (if j < n then (tps s ! j)\<lparr>registered := 0\<rparr> else tps s ! j))
   \<and> history (foldl unregister_step s [0..<n])
       = history s @ map (\<lambda>i. Eff_probe_unregister (tp (tps s ! i)) (probe (tps s ! i)))
                         (flagged (tps s) n)
   \<and> attached (kernel (foldl unregister_step s [0..<n]))
       = attached (kernel s)
         - {(ktp, p). \<exists>i \<in> set (flagged (tps s) n).
                        tp (tps s ! i) = Some ktp \<and> probe (tps s ! i) = p}"
  using assms
proof (induction n)
  case 0
  then show ?case by (simp add: flagged_def)
next
  case (Suc n)
  then have n: "n < length (tps s)" by simp
  have same: "\<And>r :: tp_and_name. registered r = 0 \<Longrightarrow> r\<lparr>registered := 0\<rparr> = r"
    by simp
  from Suc n show ?case
    by (auto simp: flagged_Suc unregister_step_def Let_def nth_list_update same
             split: option.splits)
qed

lemma register_loop_unfold:
  assumes "i < length (tps s)"
  shows "register_loop i count s =
     (if i < count then
        case get_struct_tracepoint (kernel s) (tp_and_name.name (tps s ! i)) of
          None \<Rightarrow> (False, s\<lparr>tps := (tps s)[i := (tps s ! i)\<lparr>tp := None\<rparr>]\<rparr>)
        | Some ktp \<Rightarrow>
            let s2 = s\<lparr>tps := (tps s)[i := (tps s ! i)\<lparr>tp := Some ktp, registered := 1\<rparr>]\<rparr>;
                r = tracepoint_probe_register ktp (probe (tps s ! i)) s2
            in if fst r \<noteq> 0 then (False, snd r) else register_loop (Suc i) count (snd r)
      else (True, s))"
  using assms
  by (subst register_loop.simps) (simp add: Let_def split: option.splits prod.splits)

lemma registered_entry_Suc:
  "registered_entry tab (Suc i) count ktp p \<Longrightarrow> registered_entry tab i count ktp p"
  unfolding registered_entry_def using Suc_leD by blast

lemma register_effect_Suc:
  "register_effect ok tab (Suc i) count eff \<Longrightarrow> register_effect ok tab i count eff"
  unfolding register_effect_def using registered_entry_Suc by blast

lemma register_loop_facts:
  assumes "register_loop i count s = (ok, s')" and "count \<le> length (tps s)"
  shows "global_rtsl_enable s' = global_rtsl_enable s
   \<and> per_cpu_rtsl_var s' = per_cpu_rtsl_var s
   \<and> length (tps s') = length (tps s)
   \<and> (\<forall>j < i. tps s' ! j = tps s ! j)
   \<and> (\<exists>H. history s' = history s @ H
          \<and> (\<forall>eff \<in> set H. register_effect ok (tps s') i count eff))"
  using assms
proof (induction n \<equiv> "count - i" arbitrary: i s)
  case 0
  then have "\<not> i < count" by simp
  with "0.prems" have "ok = True" "s' = s" by (simp_all add: register_loop.simps [of i count s])
  then show ?case by simp
next
  case (Suc n)
  then have lt: "i < count" by simp
  then have ilen: "i < length (tps s)" using Suc.prems(2) by simp
  note unf = register_loop_unfold [OF ilen, of count]
  show ?case
  proof (cases "get_struct_tracepoint (kernel s) (tp_and_name.name (tps s ! i))")
    case None
    with lt unf Suc.prems(1)
    have "ok = False" "s' = s\<lparr>tps := (tps s)[i := (tps s ! i)\<lparr>tp := None\<rparr>]\<rparr>"
      by simp_all
    then show ?thesis by (simp add: nth_list_update)
  next
    case (Some ktp)
    define s2 where "s2 = s\<lparr>tps := (tps s)[i := (tps s ! i)\<lparr>tp := Some ktp, registered := 1\<rparr>]\<rparr>"
    define retval where "retval = fst (tracepoint_probe_register ktp (probe (tps s ! i)) s2)"
    define s3 where "s3 = snd (tracepoint_probe_register ktp (probe (tps s ! i)) s2)"
    have e2: "tps s2 ! i = (tps s ! i)\<lparr>tp := Some ktp, registered := 1\<rparr>"
      using ilen by (simp add: s2_def)
    have tps3: "tps s3 = tps s2" by (simp add: s3_def)
    have h3: "history s3 = history s @ [Eff_probe_register ktp (probe (tps s ! i)) retval]"
      by (simp add: s3_def retval_def s2_def)
    have g3: "global_rtsl_enable s3 = global_rtsl_enable s" "per_cpu_rtsl_var s3 = per_cpu_rtsl_var s"
      "length (tps s3) = length (tps s)" "\<forall>j < i. tps s3 ! j = tps s ! j"
      by (simp_all add: s3_def s2_def nth_list_update)
    have step: "register_loop i count s
                 = (if retval \<noteq> 0 then (False, s3) else register_loop (Suc i) count s3)"
      using lt Some by (simp add: unf Let_def retval_def s3_def s2_def)
    show ?thesis
    proof (cases "retval = 0")
      case False
      with step Suc.prems(1) have "ok = False" "s' = s3" by simp_all
      with g3 h3 False show ?thesis by (simp add: register_effect_def)
    next
      case r0: True
      with step Suc.prems(1) have rec: "register_loop (Suc i) count s3 = (ok, s')" by simp
      have len3: "count \<le> length (tps s3)" using g3(3) Suc.prems(2) by simp
      have n: "n = count - Suc i" using Suc.hyps(2) by simp
      note ih = Suc.hyps(1) [OF n rec len3]
      from ih obtain H where H: "history s' = history s3 @ H"
        "\<forall>eff \<in> set H. register_effect ok (tps s') (Suc i) count eff"
        by (elim conjE exE)
      from ih have ih4: "\<forall>j < Suc i. tps s' ! j = tps s3 ! j" by (elim conjE)
      have ei: "tps s' ! i = (tps s ! i)\<lparr>tp := Some ktp, registered := 1\<rparr>"
        using ih4 tps3 e2 by simp
      have here: "registered_entry (tps s') i count ktp (probe (tps s ! i))"
        unfolding registered_entry_def using ei lt by (intro exI [of _ i]) simp
      have first: "register_effect ok (tps s') i count
                     (Eff_probe_register ktp (probe (tps s ! i)) retval)"
        unfolding register_effect_def using here r0 by simp
      have later: "\<forall>eff \<in> set H. register_effect ok (tps s') i count eff"
        using H(2) register_effect_Suc by blast
      have hist: "history s' = history s @ (Eff_probe_register ktp (probe (tps s ! i)) retval # H)"
        using H(1) h3 by simp
      have all: "\<forall>eff \<in> set (Eff_probe_register ktp (probe (tps s ! i)) retval # H).
                   register_effect ok (tps s') i count eff"
        using first later by simp
      have pre: "\<forall>j < i. tps s' ! j = tps s ! j" using ih4 g3(4) by simp
      from ih have g: "global_rtsl_enable s' = global_rtsl_enable s"
        "per_cpu_rtsl_var s' = per_cpu_rtsl_var s" "length (tps s') = length (tps s)"
        using g3 by simp_all
      from hist all show ?thesis
        by (intro conjI g pre exI [of _ "Eff_probe_register ktp (probe (tps s ! i)) retval # H"])
    qed
  qed
qed

lemma atomic_set_fields [simp]:
  "global_rtsl_enable (atomic_set_global_rtsl_enable x s) = x"
  "per_cpu_rtsl_var (atomic_set_global_rtsl_enable x s) = per_cpu_rtsl_var s"
  "tps (atomic_set_global_rtsl_enable x s) = tps s"
  "kernel (atomic_set_global_rtsl_enable x s) = kernel s"
  "history (atomic_set_global_rtsl_enable x s) = history s @ [Eff_atomic_set x]"
  by (simp_all add: atomic_set_global_rtsl_enable_def)

lemma disable_history:
  assumes "length (tps s) = NR_TP"
  shows "history (rtsl_disable s)
           = history s @ [Eff_atomic_set 0]
             @ map Eff_var_reset (cpu_online_mask (kernel s))
             @ map (\<lambda>i. Eff_probe_unregister (tp (tps s ! i)) (probe (tps s ! i)))
                   (flagged (tps s) NR_TP)
         \<and> global_rtsl_enable (rtsl_disable s) = 0
         \<and> (\<forall>cpu \<in> set (cpu_online_mask (kernel s)).
               per_cpu_rtsl_var (rtsl_disable s) cpu = rtsl_var_zero)
         \<and> (\<forall>i < NR_TP. registered (tps (rtsl_disable s) ! i) = 0)"
proof -
  define s1 where "s1 = atomic_set_global_rtsl_enable 0 s"
  define s2 where "s2 = rtsl_var_destroy_all s1"
  have d: "rtsl_disable s = foldl unregister_step s2 [0..<NR_TP]"
    by (simp add: rtsl_disable_def unregister_tracepoints_def s1_def s2_def Let_def)
  have r: "global_rtsl_enable s2 = 0" "tps s2 = tps s"
    "history s2 = history s @ [Eff_atomic_set 0] @ map Eff_var_reset (cpu_online_mask (kernel s))"
    "\<forall>c. per_cpu_rtsl_var s2 c
           = (if c \<in> set (cpu_online_mask (kernel s)) then rtsl_var_zero else per_cpu_rtsl_var s c)"
    using reset_all [of s1 "cpu_online_mask (kernel s1)"]
    by (simp_all add: s2_def rtsl_var_destroy_all_def s1_def)
  have len: "NR_TP \<le> length (tps s2)" using assms r(2) by simp
  from unregister_loop [OF len] r assms show ?thesis
    unfolding d by simp
qed

lemma disable_flag: "global_rtsl_enable (rtsl_disable s) = 0"
proof -
  have "\<And>s xs. global_rtsl_enable (foldl unregister_step s xs) = global_rtsl_enable s"
  proof -
    fix s :: rtsl_system and xs
    show "global_rtsl_enable (foldl unregister_step s xs) = global_rtsl_enable s"
      by (induction xs arbitrary: s) (simp_all add: unregister_step_def Let_def)
  qed
  then show ?thesis
    using reset_all [of "atomic_set_global_rtsl_enable 0 s"]
    by (simp add: rtsl_disable_def unregister_tracepoints_def rtsl_var_destroy_all_def Let_def)
qed

lemma stop_cpu_fields [simp]:
  "kernel (rtsl_stop_cpu s cpu) = kernel s"
  "history (rtsl_stop_cpu s cpu) = history s @ [Eff_running_clear cpu]"
  by (simp_all add: rtsl_stop_cpu_def)

lemma stop_all:
  "kernel (foldl rtsl_stop_cpu s cpus) = kernel s
   \<and> history (foldl rtsl_stop_cpu s cpus) = history s @ map Eff_running_clear cpus"
  by (induction cpus arbitrary: s) auto

lemma unregister_step_appends: "\<exists>u. history (unregister_step s i) = history s @ u"
  by (simp add: unregister_step_def Let_def)

lemma unregister_appends: "\<exists>U. history (foldl unregister_step s xs) = history s @ U"
proof (induction xs arbitrary: s)
  case Nil
  then show ?case by simp
next
  case (Cons i xs)
  obtain U where U: "history (foldl unregister_step (unregister_step s i) xs)
                    = history (unregister_step s i) @ U"
    using Cons by blast
  obtain u where u: "history (unregister_step s i) = history s @ u"
    using unregister_step_appends by blast
  from U u have "history (foldl unregister_step s (i # xs)) = history s @ (u @ U)" by simp
  then show ?case by blast
qed

lemma spec_disable_prefix:
  "\<exists>rest. history (rtsl_disable_spec s)
            = history s @ Eff_atomic_set 0 # map Eff_running_clear (cpu_online_mask (kernel s)) @ rest"
proof -
  define s2 where "s2 = rtsl_stop_all (atomic_set_global_rtsl_enable 0 s)"
  have h2: "history s2 = history s @ Eff_atomic_set 0 # map Eff_running_clear (cpu_online_mask (kernel s))"
    using stop_all [of "atomic_set_global_rtsl_enable 0 s" "cpu_online_mask (kernel s)"]
    by (simp add: s2_def rtsl_stop_all_def)
  obtain U where U: "history (unregister_tracepoints NR_TP s2) = history s2 @ U"
    unfolding unregister_tracepoints_def using unregister_appends by blast
  have "history (rtsl_disable_spec s)
          = history (unregister_tracepoints NR_TP s2)
            @ map Eff_var_reset (cpu_online_mask (kernel (unregister_tracepoints NR_TP s2)))"
    using reset_all [of "unregister_tracepoints NR_TP s2"]
    by (simp add: rtsl_disable_spec_def rtsl_var_destroy_all_def s2_def Let_def)
  with U h2 show ?thesis by simp
qed

lemma len_enabled: "length (tps sys_enabled) = NR_TP"
  by (simp add: sys_enabled_def sys_boot_def tps_init_def NR_TP_def)

lemma len_refusing: "length (tps sys_refusing) = NR_TP"
  by (simp add: sys_refusing_def sys_boot_def tps_init_def NR_TP_def)

text \<open>On the refusing host the loop registers nmi_entry and stops at nmi_exit.\<close>

lemma loop_refusing:
  "fst (register_loop 0 NR_TP (rtsl_var_init_all sys_refusing)) = False
   \<and> history (snd (register_loop 0 NR_TP (rtsl_var_init_all sys_refusing)))
      = [Eff_var_reset 0, Eff_var_reset 1,
         Eff_probe_register \<lparr>tracepoint.name = ''nmi_entry''\<rparr> (Some P_handle_nmi_entry) 0,
         Eff_probe_register \<lparr>tracepoint.name = ''nmi_exit''\<rparr> (Some P_handle_nmi_exit) (- 12)]"
  by (simp add: register_loop_unfold sys_refusing_def sys_boot_def tps_init_def tp_entry_def NR_TP_def
        rtsl_var_init_all_def rtsl_var_reset_cpu_def get_struct_tracepoint_def fill_tp_by_name_def
        tracepoint_probe_register_def Let_def)

section \<open>Enabling: roll-back on failure\<close>

text \<open>
  Claim C6. When \<open>rtsl_enable\<close> fails, or any registration request it made was refused,
  then it returns \<open>-EINVAL\<close>, the global enabled flag is what it was before the call (so
  it remains false), and every probe whose registration was accepted during this call
  is unregistered later in the same call and is no longer attached when the call
  returns.
\<close>

theorem enable_rolls_back:
  assumes len: "length (tps s) = NR_TP" and en: "rtsl_enable s = (r, s')"
    and fails: "r \<noteq> 0 \<or> (\<exists>ktp p e. e \<noteq> 0
                   \<and> Eff_probe_register ktp p e \<in> set (drop (length (history s)) (history s')))"
  shows "r = - EINVAL \<and> global_rtsl_enable s' = global_rtsl_enable s
         \<and> (\<forall>ktp p. Eff_probe_register ktp p 0 \<in> set (drop (length (history s)) (history s'))
               \<longrightarrow> (ktp, p) \<notin> attached (kernel s')
                 \<and> (\<exists>pre post. history s' = pre @ Eff_probe_register ktp p 0 # post
                       \<and> Eff_probe_unregister (Some ktp) p \<in> set post))"
proof -
  define s1 where "s1 = rtsl_var_init_all s"
  define R where "R = map Eff_var_reset (cpu_online_mask (kernel s))"
  have s1: "global_rtsl_enable s1 = global_rtsl_enable s" "tps s1 = tps s"
    "history s1 = history s @ R"
    using reset_all [of s "cpu_online_mask (kernel s)"]
    by (simp_all add: s1_def rtsl_var_init_all_def R_def)
  obtain ok s2 where loop: "register_loop 0 NR_TP s1 = (ok, s2)"
    by (cases "register_loop 0 NR_TP s1")
  have len1: "NR_TP \<le> length (tps s1)" using len s1(2) by simp
  from register_loop_facts [OF loop len1]
  obtain H where s2: "global_rtsl_enable s2 = global_rtsl_enable s1"
    "length (tps s2) = length (tps s1)" "history s2 = history s1 @ H"
    "\<forall>eff \<in> set H. register_effect ok (tps s2) 0 NR_TP eff"
    by (elim conjE exE)
  have isreg: "\<And>ktp p e. Eff_probe_register ktp p e \<notin> set R"
    by (auto simp: R_def)
  show ?thesis
  proof (cases ok)
    case True
    with en loop have res: "r = 0" "s' = atomic_set_global_rtsl_enable 1 s2"
      by (simp_all add: rtsl_enable_def register_tracepoints_def Let_def flip: s1_def)
    have new: "drop (length (history s)) (history s') = R @ H @ [Eff_atomic_set 1]"
      using res(2) s2(3) s1(3) by simp
    from fails res(1) obtain ktp p e where bad: "e \<noteq> 0"
      "Eff_probe_register ktp p e \<in> set (R @ H @ [Eff_atomic_set 1])"
      unfolding new by blast
    from bad(2) isreg have "Eff_probe_register ktp p e \<in> set H" by simp
    with s2(4) True have "e = 0" by (auto simp: register_effect_def)
    with bad(1) show ?thesis by simp
  next
    case False
    define U where "U = map (\<lambda>i. Eff_probe_unregister (tp (tps s2 ! i)) (probe (tps s2 ! i)))
                         (flagged (tps s2) NR_TP)"
    from False en loop have res: "r = - EINVAL" "s' = foldl out_err_step s2 [0..<NR_TP]"
      by (simp_all add: rtsl_enable_def register_tracepoints_def Let_def EINVAL_def flip: s1_def)
    from out_err_loop [of s2 NR_TP] res(2)
    have s': "global_rtsl_enable s' = global_rtsl_enable s2" "history s' = history s2 @ U"
      "attached (kernel s') = attached (kernel s2)
         - {(ktp, p). \<exists>i \<in> set (flagged (tps s2) NR_TP).
                        tp (tps s2 ! i) = Some ktp \<and> probe (tps s2 ! i) = p}"
      by (simp_all add: U_def)
    have new: "drop (length (history s)) (history s') = R @ H @ U"
      using s'(2) s2(3) s1(3) by simp
    have isreg2: "\<And>ktp p e. Eff_probe_register ktp p e \<notin> set U"
      by (auto simp: U_def)
    have roll: "(ktp, p) \<notin> attached (kernel s')
                 \<and> (\<exists>pre post. history s' = pre @ Eff_probe_register ktp p 0 # post
                       \<and> Eff_probe_unregister (Some ktp) p \<in> set post)"
      if mem: "Eff_probe_register ktp p 0 \<in> set (drop (length (history s)) (history s'))"
      for ktp p
    proof -
      from mem isreg isreg2 have inH: "Eff_probe_register ktp p 0 \<in> set H"
        unfolding new by simp
      with s2(4) have "registered_entry (tps s2) 0 NR_TP ktp p"
        by (auto simp: register_effect_def)
      then obtain j where j: "j < NR_TP" "tp (tps s2 ! j) = Some ktp" "probe (tps s2 ! j) = p"
        "registered (tps s2 ! j) \<noteq> 0"
        by (auto simp: registered_entry_def)
      then have jf: "j \<in> set (flagged (tps s2) NR_TP)" by (simp add: flagged_def)
      have gone: "(ktp, p) \<notin> attached (kernel s')"
        unfolding s'(3) using jf j(2,3) by blast
      have inU: "Eff_probe_unregister (Some ktp) p \<in> set U"
        unfolding U_def using jf j(2,3) by force
      from inH obtain H1 H2 where "H = H1 @ Eff_probe_register ktp p 0 # H2"
        by (meson split_list)
      then have "history s' = (history s @ R @ H1) @ Eff_probe_register ktp p 0 # (H2 @ U)"
        using s'(2) s2(3) s1(3) by simp
      moreover have "Eff_probe_unregister (Some ktp) p \<in> set (H2 @ U)" using inU by simp
      ultimately show ?thesis using gone by blast
    qed
    from res(1) s'(1) s2(1) s1(1) roll show ?thesis by simp
  qed
qed

theorem enable_rolls_back_witness:
  "length (tps sys_refusing) = NR_TP
   \<and> fst (rtsl_enable sys_refusing) = - EINVAL
   \<and> global_rtsl_enable (snd (rtsl_enable sys_refusing)) = 0
   \<and> Eff_probe_register \<lparr>tracepoint.name = ''nmi_entry''\<rparr> (Some P_handle_nmi_entry) 0
        \<in> set (history (snd (rtsl_enable sys_refusing)))
   \<and> (\<lparr>tracepoint.name = ''nmi_entry''\<rparr>, Some P_handle_nmi_entry)
        \<notin> attached (kernel (snd (rtsl_enable sys_refusing)))"
proof -
  define s2 where "s2 = snd (register_loop 0 NR_TP (rtsl_var_init_all sys_refusing))"
  have loop: "register_loop 0 NR_TP (rtsl_var_init_all sys_refusing) = (False, s2)"
    using loop_refusing by (simp add: s2_def prod_eq_iff)
  have en: "rtsl_enable sys_refusing = (- EINVAL, foldl out_err_step s2 [0..<NR_TP])"
    using loop by (simp add: rtsl_enable_def register_tracepoints_def EINVAL_def)
  have h: "Eff_probe_register \<lparr>tracepoint.name = ''nmi_entry''\<rparr> (Some P_handle_nmi_entry) 0
             \<in> set (history (snd (rtsl_enable sys_refusing)))"
    using out_err_loop [of s2 NR_TP] loop_refusing by (simp add: en s2_def)
  have hist0: "history sys_refusing = []" by (simp add: sys_refusing_def sys_boot_def)
  have nz: "fst (rtsl_enable sys_refusing) \<noteq> 0" by (simp add: en EINVAL_def)
  from enable_rolls_back [OF len_refusing surjective_pairing disjI1 [OF nz]] h hist0
  have "global_rtsl_enable (snd (rtsl_enable sys_refusing)) = global_rtsl_enable sys_refusing"
    "(\<lparr>tracepoint.name = ''nmi_entry''\<rparr>, Some P_handle_nmi_entry)
        \<notin> attached (kernel (snd (rtsl_enable sys_refusing)))"
    by simp_all
  then show ?thesis using h len_refusing en by (simp add: sys_refusing_def sys_boot_def)
qed

section \<open>Disabling: the order of the steps\<close>

text \<open>
  Claim C7, as the code has it. \<open>rtsl_disable\<close> clears the global enabled flag, then
  zeroes the state of every online CPU (which also makes \<open>running\<close> false), and then
  unregisters every probe whose flag is set, in table order. There is no separate step
  that clears \<open>running\<close>, and no zeroing after the probes are unregistered. Afterwards
  the flag is 0, every online CPU's state is zero and no table entry is flagged.
\<close>

theorem disable_order:
  assumes "length (tps s) = NR_TP"
  shows "history (rtsl_disable s)
           = history s @ [Eff_atomic_set 0]
             @ map Eff_var_reset (cpu_online_mask (kernel s))
             @ map (\<lambda>i. Eff_probe_unregister (tp (tps s ! i)) (probe (tps s ! i)))
                   (flagged (tps s) NR_TP)
         \<and> global_rtsl_enable (rtsl_disable s) = 0
         \<and> (\<forall>cpu \<in> set (cpu_online_mask (kernel s)).
               per_cpu_rtsl_var (rtsl_disable s) cpu = rtsl_var_zero)
         \<and> (\<forall>i < NR_TP. registered (tps (rtsl_disable s) ! i) = 0)"
  using assms by (rule disable_history)

theorem disable_order_witness:
  "length (tps sys_enabled) = NR_TP
   \<and> take 3 (history (rtsl_disable sys_enabled))
       = [Eff_atomic_set 0, Eff_var_reset 0, Eff_var_reset 1]
   \<and> global_rtsl_enable (rtsl_disable sys_enabled) = 0"
  using disable_order [of sys_enabled] len_enabled
  by (simp add: sys_enabled_def sys_boot_def)

text \<open>
  Claim C7 as stated fails. On the enabled system the effects of \<open>rtsl_disable\<close> differ
  from those of the order the claim gives: right after the flag is cleared the code
  zeroes CPU 0, where the claimed order clears \<open>running\<close> of CPU 0, and the last thing
  the code does is to unregister the probe of preempt_enable, not to zero a CPU.
\<close>

theorem disable_order_counterexample:
  "history (rtsl_disable sys_enabled) \<noteq> history (rtsl_disable_spec sys_enabled)
   \<and> take 2 (history (rtsl_disable sys_enabled)) = [Eff_atomic_set 0, Eff_var_reset 0]
   \<and> take 2 (history (rtsl_disable_spec sys_enabled)) = [Eff_atomic_set 0, Eff_running_clear 0]
   \<and> last (history (rtsl_disable sys_enabled))
       = Eff_probe_unregister (Some \<lparr>tracepoint.name = ''preempt_enable''\<rparr>)
           (Some P_handle_preempt_enable)"
proof -
  note h = disable_history [OF len_enabled, THEN conjunct1]
  have code: "take 2 (history (rtsl_disable sys_enabled)) = [Eff_atomic_set 0, Eff_var_reset 0]"
    unfolding h by (simp add: sys_enabled_def sys_boot_def)
  obtain rest where "history (rtsl_disable_spec sys_enabled)
     = history sys_enabled
       @ Eff_atomic_set 0 # map Eff_running_clear (cpu_online_mask (kernel sys_enabled)) @ rest"
    using spec_disable_prefix by blast
  then have spec: "take 2 (history (rtsl_disable_spec sys_enabled))
                     = [Eff_atomic_set 0, Eff_running_clear 0]"
    by (simp add: sys_enabled_def sys_boot_def)
  have r17: "registered (tps sys_enabled ! 17) \<noteq> 0"
    by (simp add: sys_enabled_def sys_boot_def tps_init_def tp_entry_def)
  have "flagged (tps sys_enabled) (Suc 17) = flagged (tps sys_enabled) 17 @ [17]"
    using r17 by (simp only: flagged_Suc not_False_eq_True if_True)
  then have fl: "flagged (tps sys_enabled) NR_TP = flagged (tps sys_enabled) 17 @ [17]"
    by (simp add: NR_TP_def)
  have lst: "last (history (rtsl_disable sys_enabled))
       = Eff_probe_unregister (Some \<lparr>tracepoint.name = ''preempt_enable''\<rparr>)
           (Some P_handle_preempt_enable)"
  proof -
    have "last (history (rtsl_disable sys_enabled))
            = Eff_probe_unregister (tp (tps sys_enabled ! 17)) (probe (tps sys_enabled ! 17))"
      unfolding h fl by simp
    then show ?thesis
      by (simp add: sys_enabled_def sys_boot_def tps_init_def tp_entry_def)
  qed
  have "history (rtsl_disable sys_enabled) \<noteq> history (rtsl_disable_spec sys_enabled)"
  proof
    assume "history (rtsl_disable sys_enabled) = history (rtsl_disable_spec sys_enabled)"
    with code spec show False by simp
  qed
  with code spec lst show ?thesis by simp
qed

section \<open>The control file: reading\<close>

lemma sprintf_x_digit: "n < 16 \<Longrightarrow> sprintf_x n = [hex_digit n]"
  by (subst sprintf_x.simps) simp

text \<open>
  Claim C5, as the code has it. \<open>rtsl_enable_read_data\<close> hands the copy helper a buffer
  of three bytes: the hex digit (\<open>0\<close> when disabled, \<open>1\<close> when enabled), a newline and
  the terminating NUL, because the length it passes is \<open>strlen(buf) + 1\<close>. A read from
  offset 0 with room for at least three bytes therefore returns exactly these three
  bytes.
\<close>

theorem read_returns_three_bytes:
  "rtsl_enable_read_data helper count ppos s
     = helper count ppos
         [if rtsl_enabled (global_rtsl_enable s) then CHR ''1'' else CHR ''0'', CHR 0x0A, NUL, NUL] 3
   \<and> (3 \<le> count \<longrightarrow>
        rtsl_enable_read_data libfs_read_from_buffer count 0 s
          = (3, [if rtsl_enabled (global_rtsl_enable s) then CHR ''1'' else CHR ''0'', CHR 0x0A, NUL], 3))"
  by (simp add: rtsl_enable_read_data_def libfs_read_from_buffer_def sprintf_def strlen_def
        sprintf_x_digit hex_digit_def NUL_def Let_def numeral_3_eq_3)

theorem read_returns_three_bytes_witness:
  "(3 :: nat) \<le> 64
   \<and> rtsl_enable_read_data libfs_read_from_buffer 64 0 sys_enabled
       = (3, [CHR ''1'', CHR 0x0A, CHR 0x00], 3)"
  using read_returns_three_bytes [of libfs_read_from_buffer 64 0 sys_enabled, THEN conjunct2]
  by (simp add: sys_enabled_def sys_boot_def rtsl_enabled_def NUL_def)

text \<open>
  Claim C5 as stated fails: a read of the disabled system from offset 0 into a 64-byte
  buffer returns three bytes, not two; the third is NUL.
\<close>

theorem read_two_bytes_counterexample:
  "length (fst (snd (rtsl_enable_read_data libfs_read_from_buffer 64 0 sys_boot))) \<noteq> 2
   \<and> fst (snd (rtsl_enable_read_data libfs_read_from_buffer 64 0 sys_boot))
       = [CHR ''0'', CHR 0x0A, CHR 0x00]"
  by (simp add: rtsl_enable_read_data_def libfs_read_from_buffer_def sprintf_def strlen_def
        sprintf_x_digit hex_digit_def NUL_def Let_def sys_boot_def rtsl_enabled_def)

section \<open>The outcome of enabling\<close>

lemma same_requests_refl [simp]: "same_requests s s"
  by (simp add: same_requests_def)

lemma same_requests_trans: "same_requests a b \<Longrightarrow> same_requests b c \<Longrightarrow> same_requests a c"
  by (simp add: same_requests_def)

lemma same_requests_accepted:
  assumes "same_requests s s'" and "j < length (tps s)"
  shows "entry_accepted (kernel s') (tps s' ! j) = entry_accepted (kernel s) (tps s ! j)"
proof -
  from assms have len: "length (tps s') = length (tps s)"
    unfolding same_requests_def by (metis length_map)
  from assms len have "tp_and_name.name (tps s' ! j) = tp_and_name.name (tps s ! j)"
    "probe (tps s' ! j) = probe (tps s ! j)"
    unfolding same_requests_def by (metis nth_map)+
  with assms(1) show ?thesis
    by (simp add: entry_accepted_def get_struct_tracepoint_def same_requests_def
             split: option.splits)
qed

lemma same_requests_length: "same_requests s s' \<Longrightarrow> length (tps s') = length (tps s)"
  unfolding same_requests_def by (metis length_map)

lemma same_requests_host:
  assumes "same_requests s s'"
  shows "host_accepts s' = host_accepts s"
proof -
  have len: "length (tps s') = length (tps s)" using assms by (rule same_requests_length)
  have "\<And>j. j < length (take NR_TP (tps s)) \<Longrightarrow>
          entry_accepted (kernel s') (take NR_TP (tps s') ! j)
            = entry_accepted (kernel s) (take NR_TP (tps s) ! j)"
    using same_requests_accepted [OF assms] by simp
  then show ?thesis
    unfolding host_accepts_def list_all_length using len by simp
qed

lemma update_same_requests:
  "i < length (tps s) \<Longrightarrow> same_requests s (s\<lparr>tps := (tps s)[i := (tps s ! i)\<lparr>tp := x\<rparr>]\<rparr>)"
  "i < length (tps s) \<Longrightarrow>
     same_requests s (s\<lparr>tps := (tps s)[i := (tps s ! i)\<lparr>tp := x, registered := y\<rparr>]\<rparr>)"
  "i < length (tps s) \<Longrightarrow>
     same_requests s (s\<lparr>tps := (tps s)[i := (tps s ! i)\<lparr>registered := y\<rparr>]\<rparr>)"
  by (simp_all add: same_requests_def map_update list_update_same_conv)

lemma register_call_same: "same_requests s (snd (tracepoint_probe_register ktp p s))"
  by (simp add: same_requests_def tracepoint_probe_register_def Let_def)

lemma unregister_call_same: "same_requests s (tracepoint_probe_unregister t p s)"
  by (simp add: same_requests_def tracepoint_probe_unregister_def Let_def split: option.splits)

lemma register_call_attached:
  "attached (kernel (snd (tracepoint_probe_register ktp p s)))
     = (if fst (tracepoint_probe_register ktp p s) = 0 then insert (ktp, p) (attached (kernel s))
        else attached (kernel s))"
  "fst (tracepoint_probe_register ktp p s) = register_errno (kernel s) (ktp, p)"
  by (simp_all add: tracepoint_probe_register_def Let_def)

text \<open>
  The registration loop runs to its end exactly when the host accepts every entry it
  visits, and then every entry it visited is hooked.
\<close>

lemma register_loop_accepts:
  assumes "register_loop i count s = (ok, s')" and "count \<le> length (tps s)"
  shows "ok = (\<forall>j. i \<le> j \<and> j < count \<longrightarrow> entry_accepted (kernel s) (tps s ! j))
         \<and> same_requests s s'
         \<and> attached (kernel s) \<subseteq> attached (kernel s')
         \<and> (ok \<longrightarrow> (\<forall>j. i \<le> j \<and> j < count \<longrightarrow> hooked s' j))"
  using assms
proof (induction n \<equiv> "count - i" arbitrary: i s)
  case 0
  then have "\<not> i < count" by simp
  with "0.prems" have "ok = True" "s' = s" by (simp_all add: register_loop.simps [of i count s])
  with \<open>\<not> i < count\<close> show ?case by auto
next
  case (Suc n)
  then have lt: "i < count" by simp
  then have ilen: "i < length (tps s)" using Suc.prems(2) by simp
  note unf = register_loop_unfold [OF ilen, of count]
  show ?case
  proof (cases "get_struct_tracepoint (kernel s) (tp_and_name.name (tps s ! i))")
    case None
    with lt unf Suc.prems(1)
    have r: "ok = False" "s' = s\<lparr>tps := (tps s)[i := (tps s ! i)\<lparr>tp := None\<rparr>]\<rparr>"
      by simp_all
    have na: "\<not> entry_accepted (kernel s) (tps s ! i)"
      using None by (simp add: entry_accepted_def)
    have a: "ok = (\<forall>j. i \<le> j \<and> j < count \<longrightarrow> entry_accepted (kernel s) (tps s ! j))"
      using r(1) na lt by auto
    have b: "same_requests s s'" unfolding r(2) using ilen by (rule update_same_requests(1))
    have c: "attached (kernel s) \<subseteq> attached (kernel s')" by (simp add: r(2))
    from a b c r(1) show ?thesis by simp
  next
    case (Some ktp)
    define s2 where "s2 = s\<lparr>tps := (tps s)[i := (tps s ! i)\<lparr>tp := Some ktp, registered := 1\<rparr>]\<rparr>"
    define retval where "retval = fst (tracepoint_probe_register ktp (probe (tps s ! i)) s2)"
    define s3 where "s3 = snd (tracepoint_probe_register ktp (probe (tps s ! i)) s2)"
    have e2: "tps s2 ! i = (tps s ! i)\<lparr>tp := Some ktp, registered := 1\<rparr>"
      using ilen by (simp add: s2_def)
    have tps3: "tps s3 = tps s2" by (simp add: s3_def)
    have same2: "same_requests s s2" unfolding s2_def using ilen by (rule update_same_requests(2))
    have same3: "same_requests s s3"
      using same2 register_call_same [of s2 ktp "probe (tps s ! i)"]
      unfolding s3_def by (rule same_requests_trans)
    have k2: "kernel s2 = kernel s" by (simp add: s2_def)
    have rv: "retval = register_errno (kernel s) (ktp, probe (tps s ! i))"
      by (simp add: retval_def register_call_attached(2) k2)
    have att3: "attached (kernel s3)
                  = (if retval = 0 then insert (ktp, probe (tps s ! i)) (attached (kernel s))
                     else attached (kernel s))"
      by (simp add: s3_def retval_def register_call_attached(1) k2)
    have acc: "entry_accepted (kernel s) (tps s ! i) = (retval = 0)"
      using Some by (simp add: entry_accepted_def rv)
    have step: "register_loop i count s
                 = (if retval \<noteq> 0 then (False, s3) else register_loop (Suc i) count s3)"
      using lt Some by (simp add: unf Let_def retval_def s3_def s2_def)
    show ?thesis
    proof (cases "retval = 0")
      case False
      with step Suc.prems(1) have r: "ok = False" "s' = s3" by simp_all
      have a: "ok = (\<forall>j. i \<le> j \<and> j < count \<longrightarrow> entry_accepted (kernel s) (tps s ! j))"
        using r(1) acc False lt by auto
      have c: "attached (kernel s) \<subseteq> attached (kernel s')" using att3 False r(2) by simp
      from a same3 c r show ?thesis by simp
    next
      case r0: True
      with step Suc.prems(1) have rec: "register_loop (Suc i) count s3 = (ok, s')" by simp
      have len3: "count \<le> length (tps s3)"
        using same_requests_length [OF same3] Suc.prems(2) by simp
      have n: "n = count - Suc i" using Suc.hyps(2) by simp
      note ih = Suc.hyps(1) [OF n rec len3]
      from ih have ih_a: "ok = (\<forall>j. Suc i \<le> j \<and> j < count
                                  \<longrightarrow> entry_accepted (kernel s3) (tps s3 ! j))"
        by (elim conjE)
      from ih have ih_b: "same_requests s3 s'" by (elim conjE)
      from ih have ih_c: "attached (kernel s3) \<subseteq> attached (kernel s')" by (elim conjE)
      from ih have ih_d: "ok \<longrightarrow> (\<forall>j. Suc i \<le> j \<and> j < count \<longrightarrow> hooked s' j)" by (elim conjE)
      have same_acc: "\<And>j. j < count \<Longrightarrow>
          entry_accepted (kernel s3) (tps s3 ! j) = entry_accepted (kernel s) (tps s ! j)"
        using same_requests_accepted [OF same3] Suc.prems(2) by simp
      have split: "\<And>j. (i \<le> j) = (j = i \<or> Suc i \<le> j)" by auto
      have a: "ok = (\<forall>j. i \<le> j \<and> j < count \<longrightarrow> entry_accepted (kernel s) (tps s ! j))"
      proof -
        have "ok = (\<forall>j. Suc i \<le> j \<and> j < count \<longrightarrow> entry_accepted (kernel s) (tps s ! j))"
          using ih_a same_acc by auto
        also have "\<dots> = (\<forall>j. i \<le> j \<and> j < count \<longrightarrow> entry_accepted (kernel s) (tps s ! j))"
          using acc r0 by (auto simp: split)
        finally show ?thesis .
      qed
      have b: "same_requests s s'" using same3 ih_b by (rule same_requests_trans)
      have c: "attached (kernel s) \<subseteq> attached (kernel s')" using att3 r0 ih_c by auto
      from register_loop_facts [OF rec len3]
      have keep: "\<forall>j < Suc i. tps s' ! j = tps s3 ! j" by (elim conjE)
      have ei: "tps s' ! i = (tps s ! i)\<lparr>tp := Some ktp, registered := 1\<rparr>"
        using keep tps3 e2 by simp
      have "(ktp, probe (tps s ! i)) \<in> attached (kernel s')" using att3 r0 ih_c by auto
      then have hi: "hooked s' i" unfolding hooked_def using ei by simp
      have d: "ok \<longrightarrow> (\<forall>j. i \<le> j \<and> j < count \<longrightarrow> hooked s' j)"
        using ih_d hi by (auto simp: split)
      from a b c d show ?thesis by simp
    qed
  qed
qed

text \<open>Disabling leaves the requests and the host's answers as they are.\<close>

lemma reset_all_same: "same_requests s (foldl rtsl_var_reset_cpu s cpus)"
  using reset_all [of s cpus] by (simp add: same_requests_def)

lemma atomic_set_same: "same_requests s (atomic_set_global_rtsl_enable x s)"
  by (simp add: same_requests_def)

lemma update_registered_same:
  "same_requests s (s\<lparr>tps := (tps s)[i := (tps s ! i)\<lparr>registered := y\<rparr>]\<rparr>)"
proof (cases "i < length (tps s)")
  case True
  then show ?thesis by (rule update_same_requests(3))
next
  case False
  then have "length (tps s) \<le> i" by simp
  then have "(tps s)[i := (tps s ! i)\<lparr>registered := y\<rparr>] = tps s"
    by (rule list_update_beyond)
  then show ?thesis by (simp add: same_requests_def)
qed

lemma unregister_step_same: "same_requests s (unregister_step s i)"
proof (cases "registered (tps s ! i) = 0")
  case True
  then show ?thesis by (simp add: unregister_step_def)
next
  case False
  define s1 where "s1 = tracepoint_probe_unregister (tp (tps s ! i)) (probe (tps s ! i)) s"
  have a: "same_requests s s1" unfolding s1_def by (rule unregister_call_same)
  have b: "same_requests s1 (s1\<lparr>tps := (tps s1)[i := (tps s1 ! i)\<lparr>registered := 0\<rparr>]\<rparr>)"
    by (rule update_registered_same)
  have c: "unregister_step s i = s1\<lparr>tps := (tps s1)[i := (tps s1 ! i)\<lparr>registered := 0\<rparr>]\<rparr>"
    using False by (simp add: unregister_step_def Let_def s1_def)
  show ?thesis unfolding c using a b by (rule same_requests_trans)
qed

lemma unregister_all_same: "same_requests s (foldl unregister_step s xs)"
proof (induction xs arbitrary: s)
  case Nil
  then show ?case by simp
next
  case (Cons i xs)
  have a: "same_requests s (unregister_step s i)" by (rule unregister_step_same)
  have b: "same_requests (unregister_step s i) (foldl unregister_step (unregister_step s i) xs)"
    by (rule Cons)
  have c: "foldl unregister_step s (i # xs) = foldl unregister_step (unregister_step s i) xs"
    by simp
  show ?case unfolding c using a b by (rule same_requests_trans)
qed

lemma disable_same: "same_requests s (rtsl_disable s)"
proof -
  have "same_requests s (atomic_set_global_rtsl_enable 0 s)" by (rule atomic_set_same)
  moreover have "same_requests (atomic_set_global_rtsl_enable 0 s)
                   (rtsl_var_destroy_all (atomic_set_global_rtsl_enable 0 s))"
    unfolding rtsl_var_destroy_all_def by (rule reset_all_same)
  moreover have "same_requests (rtsl_var_destroy_all (atomic_set_global_rtsl_enable 0 s))
                   (rtsl_disable s)"
    unfolding rtsl_disable_def unregister_tracepoints_def Let_def by (rule unregister_all_same)
  ultimately show ?thesis by (meson same_requests_trans)
qed

lemma hooked_atomic_set [simp]: "hooked (atomic_set_global_rtsl_enable x s) i = hooked s i"
  by (simp add: hooked_def)

text \<open>
  \<open>rtsl_enable\<close> on a host that accepts the table, and on one that does not.
\<close>

lemma enable_outcome:
  assumes len: "length (tps s) = NR_TP"
  shows "host_accepts s \<Longrightarrow>
           fst (rtsl_enable s) = 0 \<and> global_rtsl_enable (snd (rtsl_enable s)) = 1
           \<and> (\<forall>cpu \<in> set (cpu_online_mask (kernel s)).
                 per_cpu_rtsl_var (snd (rtsl_enable s)) cpu = rtsl_var_zero)
           \<and> (\<forall>i < NR_TP. hooked (snd (rtsl_enable s)) i)"
    and "\<not> host_accepts s \<Longrightarrow>
           fst (rtsl_enable s) = - EINVAL
           \<and> global_rtsl_enable (snd (rtsl_enable s)) = global_rtsl_enable s"
proof -
  define s1 where "s1 = rtsl_var_init_all s"
  have s1: "global_rtsl_enable s1 = global_rtsl_enable s" "tps s1 = tps s" "kernel s1 = kernel s"
    "\<forall>c. per_cpu_rtsl_var s1 c
           = (if c \<in> set (cpu_online_mask (kernel s)) then rtsl_var_zero else per_cpu_rtsl_var s c)"
    using reset_all [of s "cpu_online_mask (kernel s)"]
    by (simp_all add: s1_def rtsl_var_init_all_def)
  obtain ok s2 where loop: "register_loop 0 NR_TP s1 = (ok, s2)"
    by (cases "register_loop 0 NR_TP s1")
  have len1: "NR_TP \<le> length (tps s1)" using len s1(2) by simp
  note facts = register_loop_facts [OF loop len1]
  from facts have s2a: "global_rtsl_enable s2 = global_rtsl_enable s1" by (elim conjE)
  from facts have s2b: "per_cpu_rtsl_var s2 = per_cpu_rtsl_var s1" by (elim conjE)
  note s2 = s2a s2b
  note acc = register_loop_accepts [OF loop len1]
  from acc have ok: "ok = (\<forall>j. 0 \<le> j \<and> j < NR_TP \<longrightarrow> entry_accepted (kernel s1) (tps s1 ! j))"
    by (elim conjE)
  from acc have hk: "ok \<longrightarrow> (\<forall>j. 0 \<le> j \<and> j < NR_TP \<longrightarrow> hooked s2 j)"
    by (elim conjE)
  have okh: "ok = host_accepts s"
    unfolding ok host_accepts_def list_all_length using len s1(2,3) by simp
  {
    assume "host_accepts s"
    with okh have "ok" by simp
    with loop have en: "rtsl_enable s = (0, atomic_set_global_rtsl_enable 1 s2)"
      by (simp add: rtsl_enable_def register_tracepoints_def Let_def flip: s1_def)
    show "fst (rtsl_enable s) = 0 \<and> global_rtsl_enable (snd (rtsl_enable s)) = 1
           \<and> (\<forall>cpu \<in> set (cpu_online_mask (kernel s)).
                 per_cpu_rtsl_var (snd (rtsl_enable s)) cpu = rtsl_var_zero)
           \<and> (\<forall>i < NR_TP. hooked (snd (rtsl_enable s)) i)"
      using hk \<open>ok\<close> s2 s1 by (simp add: en)
  }
  {
    assume "\<not> host_accepts s"
    with okh have "\<not> ok" by simp
    with loop have en: "rtsl_enable s = (- EINVAL, foldl out_err_step s2 [0..<NR_TP])"
      by (simp add: rtsl_enable_def register_tracepoints_def Let_def EINVAL_def flip: s1_def)
    show "fst (rtsl_enable s) = - EINVAL
           \<and> global_rtsl_enable (snd (rtsl_enable s)) = global_rtsl_enable s"
      using out_err_loop [of s2 NR_TP] s2 s1 by (simp add: en)
  }
qed

text \<open>The lookup by name, and the two sample hosts.\<close>

lemma fill_fold:
  "tp (foldl (\<lambda>priv ktp. fill_tp_by_name ktp priv) priv xs)
     = (if tp_and_name.name priv \<in> tracepoint.name ` set xs
        then Some \<lparr>tracepoint.name = tp_and_name.name priv\<rparr> else tp priv)
   \<and> tp_and_name.name (foldl (\<lambda>priv ktp. fill_tp_by_name ktp priv) priv xs) = tp_and_name.name priv"
proof (induction xs arbitrary: priv)
  case Nil
  then show ?case by simp
next
  case (Cons x xs)
  have n: "tp_and_name.name (fill_tp_by_name x priv) = tp_and_name.name priv"
    by (simp add: fill_tp_by_name_def)
  have t: "tp (fill_tp_by_name x priv)
             = (if tracepoint.name x = tp_and_name.name priv then Some x else tp priv)"
    by (simp add: fill_tp_by_name_def)
  have x: "tracepoint.name x = tp_and_name.name priv \<Longrightarrow> x = \<lparr>tracepoint.name = tp_and_name.name priv\<rparr>"
    by (cases x) simp
  show ?case using Cons [of "fill_tp_by_name x priv"] n t x by auto
qed

lemma lookup_by_name:
  "get_struct_tracepoint h nm
     = (if nm \<in> tracepoint.name ` set (kernel_tracepoints h)
        then Some \<lparr>tracepoint.name = nm\<rparr> else None)"
  using fill_fold [of "\<lparr> tp = None, probe = None, tp_and_name.name = nm, registered = 0 \<rparr>"
                      "kernel_tracepoints h"]
  by (simp add: get_struct_tracepoint_def)

lemma accepts_enabled: "host_accepts sys_enabled"
proof -
  have "entry_accepted (kernel sys_enabled) t" if "t \<in> set (tps sys_enabled)" for t
  proof -
    from that obtain t0 where "t0 \<in> set (tps_init False)"
      "tp_and_name.name t = tp_and_name.name t0"
      by (auto simp: sys_enabled_def)
    then have "tp_and_name.name t \<in> tracepoint.name ` set (kernel_tracepoints (kernel sys_enabled))"
      by (force simp: sys_enabled_def sys_boot_def)
    then show ?thesis
      by (simp add: entry_accepted_def lookup_by_name) (simp add: sys_enabled_def sys_boot_def)
  qed
  then show ?thesis
    unfolding host_accepts_def list_all_iff by (meson in_set_takeD)
qed

lemma not_accepts_refusing: "\<not> host_accepts sys_refusing"
proof -
  have "\<not> entry_accepted (kernel sys_refusing) (take NR_TP (tps sys_refusing) ! 1)"
    by (simp add: entry_accepted_def get_struct_tracepoint_def fill_tp_by_name_def
          sys_refusing_def sys_boot_def tps_init_def tp_entry_def NR_TP_def)
  moreover have "1 < length (take NR_TP (tps sys_refusing))"
    using len_refusing by (simp add: NR_TP_def)
  ultimately show ?thesis unfolding host_accepts_def list_all_length by blast
qed

section \<open>The control file: writing\<close>

lemma flag_enabled: "global_rtsl_enable sys_enabled = 1"
  by (simp add: sys_enabled_def)

lemma flag_refusing: "global_rtsl_enable sys_refusing = 0"
  by (simp add: sys_refusing_def sys_boot_def)

text \<open>The \<open>'1'\<close> case of the write, and the state it leaves.\<close>

lemma write_one:
  assumes "helper (\<lambda>i. NUL) 2 ppos user_buf count = (r, buf, ppos1)"
    and "1 \<le> count" and "count \<le> 3" and "to_c_int r \<noteq> 0" and "buf 0 = CHR ''1''"
  shows "rtsl_enable_write_data helper user_buf count ppos s
           = (to_c_int r, ppos1,
              snd (rtsl_enable (if rtsl_enabled (global_rtsl_enable s) then rtsl_disable s else s)))"
  using assms by (simp add: rtsl_enable_write_data_def Let_def case_prod_beta)

lemma restart_outcome:
  assumes len: "length (tps s) = NR_TP"
  defines "s' \<equiv> snd (rtsl_enable (if rtsl_enabled (global_rtsl_enable s) then rtsl_disable s else s))"
  shows "host_accepts s \<Longrightarrow>
           rtsl_enabled (global_rtsl_enable s')
           \<and> (\<forall>cpu \<in> set (cpu_online_mask (kernel s)). per_cpu_rtsl_var s' cpu = rtsl_var_zero)
           \<and> (\<forall>i < NR_TP. hooked s' i)"
    and "\<not> host_accepts s \<Longrightarrow> \<not> rtsl_enabled (global_rtsl_enable s')"
proof -
  define was where "was = (if rtsl_enabled (global_rtsl_enable s) then rtsl_disable s else s)"
  have same: "same_requests s was" by (simp add: was_def disable_same)
  have lenw: "length (tps was) = NR_TP" using same_requests_length [OF same] len by simp
  have acc: "host_accepts was = host_accepts s" using same by (rule same_requests_host)
  have cpus: "cpu_online_mask (kernel was) = cpu_online_mask (kernel s)"
    using same by (simp add: same_requests_def)
  have off: "global_rtsl_enable was = 0"
    by (simp add: was_def disable_flag rtsl_enabled_def)
  have s': "s' = snd (rtsl_enable was)" by (simp add: s'_def was_def)
  {
    assume "host_accepts s"
    then have "host_accepts was" using acc by simp
    from enable_outcome(1) [OF lenw this] cpus
    show "rtsl_enabled (global_rtsl_enable s')
           \<and> (\<forall>cpu \<in> set (cpu_online_mask (kernel s)). per_cpu_rtsl_var s' cpu = rtsl_var_zero)
           \<and> (\<forall>i < NR_TP. hooked s' i)"
      unfolding s' by (simp add: rtsl_enabled_def)
  }
  {
    assume "\<not> host_accepts s"
    then have "\<not> host_accepts was" using acc by simp
    from enable_outcome(2) [OF lenw this] off
    show "\<not> rtsl_enabled (global_rtsl_enable s')"
      unfolding s' by (simp add: rtsl_enabled_def)
  }
qed

text \<open>
  Claim C4, as the code has it. For a write of \<open>count\<close> bytes, whatever the copy helper
  of the host does, on a table of \<open>NR_TP\<close> entries: a count below 1 or above 3 returns
  \<open>-EINVAL\<close> and changes nothing; when the helper reports that it copied nothing (it
  returns 0) the write returns \<open>-EFAULT\<close> and changes nothing; otherwise a first buffer
  character \<open>1\<close> disables rtsl if it is enabled and then calls \<open>rtsl_enable\<close>, whose
  return value it ignores: the write returns what the helper returned, and afterwards
  rtsl is enabled, with every online CPU's state zero and every table entry hooked, if
  the host accepts every registration of the table, and it is disabled if the host
  refuses one; a first character \<open>0\<close> disables rtsl if it is enabled, so that it is
  disabled afterwards; and any other first character returns \<open>-EINVAL\<close> and changes
  nothing.
\<close>

theorem write_control:
  assumes "helper (\<lambda>i. NUL) 2 ppos user_buf count = (r, buf, ppos1)"
    and "length (tps s) = NR_TP"
  shows "(count < 1 \<or> count > 3 \<longrightarrow>
            rtsl_enable_write_data helper user_buf count ppos s = (- EINVAL, ppos, s))
       \<and> (1 \<le> count \<and> count \<le> 3 \<and> r = 0 \<longrightarrow>
            rtsl_enable_write_data helper user_buf count ppos s = (- EFAULT, ppos1, s))
       \<and> (1 \<le> count \<and> count \<le> 3 \<and> to_c_int r \<noteq> 0 \<and> buf 0 = CHR ''1'' \<longrightarrow>
            rtsl_enable_write_data helper user_buf count ppos s
              = (to_c_int r, ppos1,
                 snd (rtsl_enable (if rtsl_enabled (global_rtsl_enable s)
                                   then rtsl_disable s else s)))
            \<and> (host_accepts s \<longrightarrow>
                  rtsl_enabled (global_rtsl_enable
                     (snd (snd (rtsl_enable_write_data helper user_buf count ppos s))))
                  \<and> (\<forall>cpu \<in> set (cpu_online_mask (kernel s)).
                        per_cpu_rtsl_var
                          (snd (snd (rtsl_enable_write_data helper user_buf count ppos s))) cpu
                          = rtsl_var_zero)
                  \<and> (\<forall>i < NR_TP.
                        hooked (snd (snd (rtsl_enable_write_data helper user_buf count ppos s))) i))
            \<and> (\<not> host_accepts s \<longrightarrow>
                  \<not> rtsl_enabled (global_rtsl_enable
                       (snd (snd (rtsl_enable_write_data helper user_buf count ppos s))))))
       \<and> (1 \<le> count \<and> count \<le> 3 \<and> to_c_int r \<noteq> 0 \<and> buf 0 = CHR ''0'' \<longrightarrow>
            rtsl_enable_write_data helper user_buf count ppos s
              = (to_c_int r, ppos1,
                 if rtsl_enabled (global_rtsl_enable s) then rtsl_disable s else s)
            \<and> \<not> rtsl_enabled (global_rtsl_enable
                   (if rtsl_enabled (global_rtsl_enable s) then rtsl_disable s else s)))
       \<and> (1 \<le> count \<and> count \<le> 3 \<and> to_c_int r \<noteq> 0
            \<and> buf 0 \<noteq> CHR ''1'' \<and> buf 0 \<noteq> CHR ''0'' \<longrightarrow>
            rtsl_enable_write_data helper user_buf count ppos s = (- EINVAL, ppos1, s))"
proof -
  have a: "count < 1 \<or> count > 3 \<longrightarrow>
            rtsl_enable_write_data helper user_buf count ppos s = (- EINVAL, ppos, s)"
    by (auto simp: rtsl_enable_write_data_def)
  have b: "1 \<le> count \<and> count \<le> 3 \<and> r = 0 \<longrightarrow>
            rtsl_enable_write_data helper user_buf count ppos s = (- EFAULT, ppos1, s)"
    using assms(1) by (auto simp: rtsl_enable_write_data_def to_c_int_def)
  have c: "1 \<le> count \<and> count \<le> 3 \<and> to_c_int r \<noteq> 0 \<and> buf 0 = CHR ''1'' \<longrightarrow>
            rtsl_enable_write_data helper user_buf count ppos s
              = (to_c_int r, ppos1,
                 snd (rtsl_enable (if rtsl_enabled (global_rtsl_enable s)
                                   then rtsl_disable s else s)))
            \<and> (host_accepts s \<longrightarrow>
                  rtsl_enabled (global_rtsl_enable
                     (snd (snd (rtsl_enable_write_data helper user_buf count ppos s))))
                  \<and> (\<forall>cpu \<in> set (cpu_online_mask (kernel s)).
                        per_cpu_rtsl_var
                          (snd (snd (rtsl_enable_write_data helper user_buf count ppos s))) cpu
                          = rtsl_var_zero)
                  \<and> (\<forall>i < NR_TP.
                        hooked (snd (snd (rtsl_enable_write_data helper user_buf count ppos s))) i))
            \<and> (\<not> host_accepts s \<longrightarrow>
                  \<not> rtsl_enabled (global_rtsl_enable
                       (snd (snd (rtsl_enable_write_data helper user_buf count ppos s)))))"
  proof (intro impI, elim conjE)
    assume h: "1 \<le> count" "count \<le> 3" "to_c_int r \<noteq> 0" "buf 0 = CHR ''1''"
    have w: "rtsl_enable_write_data helper user_buf count ppos s
              = (to_c_int r, ppos1,
                 snd (rtsl_enable (if rtsl_enabled (global_rtsl_enable s)
                                   then rtsl_disable s else s)))"
      using assms(1) h by (rule write_one)
    show "rtsl_enable_write_data helper user_buf count ppos s
              = (to_c_int r, ppos1,
                 snd (rtsl_enable (if rtsl_enabled (global_rtsl_enable s)
                                   then rtsl_disable s else s)))
            \<and> (host_accepts s \<longrightarrow>
                  rtsl_enabled (global_rtsl_enable
                     (snd (snd (rtsl_enable_write_data helper user_buf count ppos s))))
                  \<and> (\<forall>cpu \<in> set (cpu_online_mask (kernel s)).
                        per_cpu_rtsl_var
                          (snd (snd (rtsl_enable_write_data helper user_buf count ppos s))) cpu
                          = rtsl_var_zero)
                  \<and> (\<forall>i < NR_TP.
                        hooked (snd (snd (rtsl_enable_write_data helper user_buf count ppos s))) i))
            \<and> (\<not> host_accepts s \<longrightarrow>
                  \<not> rtsl_enabled (global_rtsl_enable
                       (snd (snd (rtsl_enable_write_data helper user_buf count ppos s)))))"
      unfolding w snd_conv
      using restart_outcome [OF assms(2)] by blast
  qed
  have d: "1 \<le> count \<and> count \<le> 3 \<and> to_c_int r \<noteq> 0 \<and> buf 0 = CHR ''0'' \<longrightarrow>
            rtsl_enable_write_data helper user_buf count ppos s
              = (to_c_int r, ppos1,
                 if rtsl_enabled (global_rtsl_enable s) then rtsl_disable s else s)
            \<and> \<not> rtsl_enabled (global_rtsl_enable
                   (if rtsl_enabled (global_rtsl_enable s) then rtsl_disable s else s))"
    using assms(1)
    by (auto simp: rtsl_enable_write_data_def rtsl_enabled_def disable_flag Let_def)
  have e: "1 \<le> count \<and> count \<le> 3 \<and> to_c_int r \<noteq> 0
            \<and> buf 0 \<noteq> CHR ''1'' \<and> buf 0 \<noteq> CHR ''0'' \<longrightarrow>
            rtsl_enable_write_data helper user_buf count ppos s = (- EINVAL, ppos1, s)"
    using assms(1) by (auto simp: rtsl_enable_write_data_def Let_def)
  from a b c d e show ?thesis by (intro conjI)
qed

theorem write_control_witness:
  "length (tps sys_enabled) = NR_TP \<and> host_accepts sys_enabled
   \<and> length (tps sys_refusing) = NR_TP \<and> \<not> host_accepts sys_refusing
   \<and> rtsl_enable_write_data libfs_write_to_buffer ''1234'' 4 0 sys_enabled = (- EINVAL, 0, sys_enabled)
   \<and> rtsl_enable_write_data libfs_write_to_buffer ''1'' 1 2 sys_enabled = (- EFAULT, 2, sys_enabled)
   \<and> rtsl_enable_write_data libfs_write_to_buffer ''1'' 1 0 sys_enabled
        = (1, 1, snd (rtsl_enable (rtsl_disable sys_enabled)))
   \<and> rtsl_enabled (global_rtsl_enable
        (snd (snd (rtsl_enable_write_data libfs_write_to_buffer ''1'' 1 0 sys_enabled))))
   \<and> hooked (snd (snd (rtsl_enable_write_data libfs_write_to_buffer ''1'' 1 0 sys_enabled))) 0
   \<and> \<not> rtsl_enabled (global_rtsl_enable
        (snd (snd (rtsl_enable_write_data libfs_write_to_buffer ''1'' 1 0 sys_refusing))))
   \<and> rtsl_enable_write_data libfs_write_to_buffer ''0'' 1 0 sys_enabled
        = (1, 1, rtsl_disable sys_enabled)
   \<and> rtsl_enable_write_data libfs_write_to_buffer ''x'' 1 0 sys_enabled = (- EINVAL, 1, sys_enabled)"
  using write_control [of libfs_write_to_buffer 0 "''1234''" 4
          "fst (libfs_write_to_buffer (\<lambda>i. NUL) 2 0 ''1234'' 4)"
          "fst (snd (libfs_write_to_buffer (\<lambda>i. NUL) 2 0 ''1234'' 4))"
          "snd (snd (libfs_write_to_buffer (\<lambda>i. NUL) 2 0 ''1234'' 4))" sys_enabled]
        write_control [of libfs_write_to_buffer 2 "''1''" 1
          "fst (libfs_write_to_buffer (\<lambda>i. NUL) 2 2 ''1'' 1)"
          "fst (snd (libfs_write_to_buffer (\<lambda>i. NUL) 2 2 ''1'' 1))"
          "snd (snd (libfs_write_to_buffer (\<lambda>i. NUL) 2 2 ''1'' 1))" sys_enabled]
        write_control [of libfs_write_to_buffer 0 "''1''" 1
          "fst (libfs_write_to_buffer (\<lambda>i. NUL) 2 0 ''1'' 1)"
          "fst (snd (libfs_write_to_buffer (\<lambda>i. NUL) 2 0 ''1'' 1))"
          "snd (snd (libfs_write_to_buffer (\<lambda>i. NUL) 2 0 ''1'' 1))" sys_enabled]
        write_control [of libfs_write_to_buffer 0 "''1''" 1
          "fst (libfs_write_to_buffer (\<lambda>i. NUL) 2 0 ''1'' 1)"
          "fst (snd (libfs_write_to_buffer (\<lambda>i. NUL) 2 0 ''1'' 1))"
          "snd (snd (libfs_write_to_buffer (\<lambda>i. NUL) 2 0 ''1'' 1))" sys_refusing]
        write_control [of libfs_write_to_buffer 0 "''0''" 1
          "fst (libfs_write_to_buffer (\<lambda>i. NUL) 2 0 ''0'' 1)"
          "fst (snd (libfs_write_to_buffer (\<lambda>i. NUL) 2 0 ''0'' 1))"
          "snd (snd (libfs_write_to_buffer (\<lambda>i. NUL) 2 0 ''0'' 1))" sys_enabled]
        write_control [of libfs_write_to_buffer 0 "''x''" 1
          "fst (libfs_write_to_buffer (\<lambda>i. NUL) 2 0 ''x'' 1)"
          "fst (snd (libfs_write_to_buffer (\<lambda>i. NUL) 2 0 ''x'' 1))"
          "snd (snd (libfs_write_to_buffer (\<lambda>i. NUL) 2 0 ''x'' 1))" sys_enabled]
        len_enabled len_refusing accepts_enabled not_accepts_refusing flag_enabled flag_refusing
  by (auto simp: libfs_write_to_buffer_def to_c_int_def rtsl_enabled_def NUL_def Let_def
        NR_TP_def)

text \<open>
  Claim C4 as stated fails: on the host that refuses the probe of nmi_exit, writing
  \<open>1\<close> to the disabled system returns 1, the number of bytes written, and leaves rtsl
  disabled.
\<close>

theorem write_one_refused_counterexample:
  "fst (rtsl_enable_write_data libfs_write_to_buffer ''1'' 1 0 sys_refusing) = 1
   \<and> \<not> rtsl_enabled (global_rtsl_enable
          (snd (snd (rtsl_enable_write_data libfs_write_to_buffer ''1'' 1 0 sys_refusing))))"
proof -
  have w: "rtsl_enable_write_data libfs_write_to_buffer ''1'' 1 0 sys_refusing
             = (1, 1, snd (rtsl_enable sys_refusing))"
    by (simp add: rtsl_enable_write_data_def libfs_write_to_buffer_def to_c_int_def
          rtsl_enabled_def flag_refusing NUL_def Let_def case_prod_beta)
  from enable_outcome(2) [OF len_refusing not_accepts_refusing] flag_refusing
  show ?thesis unfolding w by (simp add: rtsl_enabled_def)
qed

end
